theory Spec2Isabelle
  imports Main "HOL-Library.Multiset"
begin

section \<open>The message table\<close>

text \<open>
  The schema declares the table \<^verbatim>\<open>message\<close> with an identity column \<^verbatim>\<open>id\<close>, a
  \<^verbatim>\<open>varchar(20)\<close> column \<^verbatim>\<open>role\<close>, a \<^verbatim>\<open>text\<close> column \<^verbatim>\<open>content\<close> and a timestamp
  \<^verbatim>\<open>createdAt\<close> that defaults to the database clock. A row is a record; a timestamp is
  an integer count of clock ticks. A string lists the code units that the
  \<^verbatim>\<open>length\<close> of a JavaScript string counts.
\<close>

record Message =
  m_id :: int
  m_role :: string
  m_content :: string
  m_createdAt :: int

text \<open>
  The state that the routers reach through \<^verbatim>\<open>ctx.db\<close>: the rows of the table in the
  order of their insertion, and the next value of the identity sequence.
\<close>

record message_store =
  rows :: "Message list"
  nextId :: int

datatype error = ValidationError | UpstreamGenerationError | StoreError

text \<open>
  \<^verbatim>\<open>ctx.db.insert(Message).values({role, content}).returning()\<close>: the row gets the next
  identity value and the clock reading \<open>now\<close> of the database; the inserted row is
  returned. The routers insert directly, without \<^verbatim>\<open>CreateMessageSchema\<close>.
\<close>

definition insertMessage ::
  "int \<Rightarrow> string \<Rightarrow> string \<Rightarrow> message_store \<Rightarrow> Message \<times> message_store" where
  "insertMessage now role content db =
     (let row = \<lparr>m_id = nextId db, m_role = role, m_content = content, m_createdAt = now\<rparr>
      in (row, db\<lparr>rows := rows db @ [row], nextId := nextId db + 1\<rparr>))"

text \<open>
  \<^verbatim>\<open>ctx.db.select().from(Message).orderBy(desc(Message.createdAt)).limit(n)\<close>.
  SQL leaves the order of rows with equal sort keys open; the model resolves it the way a
  stable sort of the table does, so rows with equal \<^verbatim>\<open>createdAt\<close> keep their table
  order, for the descending query as for the ascending one.
\<close>

definition selectRecent :: "nat \<Rightarrow> message_store \<Rightarrow> Message list" where
  "selectRecent n db = take n (sort_key (\<lambda>m. - m_createdAt m) (rows db))"

text \<open>
  \<^verbatim>\<open>getMessages\<close> and \<^verbatim>\<open>clearMessages\<close> have the same text in the chat router and in both
  versions of the agent router.
  \<^verbatim>\<open>getMessages: ctx.db.select().from(Message).orderBy(Message.createdAt)\<close>
\<close>

definition getMessages :: "message_store \<Rightarrow> Message list" where
  "getMessages db = sort_key m_createdAt (rows db)"

text \<open>
  \<^verbatim>\<open>clearMessages: ctx.db.delete(Message)\<close>, a delete with no \<^verbatim>\<open>where\<close>. It resolves to
  the driver's result, of which the model keeps the number of rows removed. The identity
  sequence is not reset by a delete.
\<close>

definition clearMessages :: "message_store \<Rightarrow> (error + nat) \<times> message_store" where
  "clearMessages db = (Inr (length (rows db)), db\<lparr>rows := []\<rparr>)"

section \<open>Procedure outcomes\<close>

text \<open>
  A mutation ends with the value it returns or the error it throws, the store as it
  leaves it, and the calls it made to the hosted model, each with its arguments.
\<close>

record ('r, 'c) outcome =
  outcome_result :: "error + 'r"
  outcome_store :: message_store
  outcome_calls :: "'c list"

type_synonym model_message = "string \<times> string"

section \<open>The chat router\<close>

text \<open>The table \<^verbatim>\<open>SYSTEM_PROMPTS\<close> of the chat router, key by key.\<close>

definition default_prompt :: string where
  \<open>default_prompt =
     ''You are a friendly and helpful AI assistant. Please answer questions in a concise and clear manner.''\<close>

definition luffy_prompt :: string where
  \<open>luffy_prompt =
     ''You are Monkey D. Luffy, the main character from One Piece and captain of the Straw Hat Pirates.\<newline>\<newline>Personality traits:\<newline>- Energetic, optimistic, and never give up\<newline>- Speak simply and directly, often say "I'm gonna be King of the Pirates!"\<newline>- Love eating meat, especially huge chunks of meat\<newline>- Extremely loyal to friends, would do anything for crewmates\<newline>- A bit naive but very brave\<newline>- Use catchphrases like "Hehe", "That's awesome!", "That's interesting!"\<newline>\<newline>Speaking style:\<newline>- Use simple, enthusiastic language\<newline>- Often mention adventure, friends, and dreams\<newline>- Show great enthusiasm for food (especially meat)\<newline>- When facing difficulties, say "I'll never give up!"\<newline>\<newline>Please answer user questions in Luffy's tone and style.''\<close>

definition ironman_prompt :: string where
  \<open>ironman_prompt =
     ''You are Tony Stark (Iron Man), genius inventor and superhero.\<newline>\<newline>Personality traits:\<newline>- Intelligent, confident, a bit narcissistic\<newline>- Like to respond with humor and sarcasm\<newline>- Often mention technology and inventions\<newline>- Speak with a bit of arrogance but very charming\<newline>\<newline>Speaking style:\<newline>- Use smart, witty language\<newline>- Occasionally joke or self-deprecate\<newline>- Mention Stark Industries and technology\<newline>- Call others "kid", "buddy", etc.''\<close>

definition goku_prompt :: string where
  \<open>goku_prompt =
     ''You are Son Goku, the main character from Dragon Ball and Super Saiyan warrior.\<newline>\<newline>Personality traits:\<newline>- Love fighting and always want to get stronger\<newline>- Simple, kind, optimistic\<newline>- Love eating a lot\<newline>- Passionate about training and fighting\<newline>\<newline>Speaking style:\<newline>- Use simple, direct language\<newline>- Often mention training, getting stronger, fighting\<newline>- Show great interest in food\<newline>- Use catchphrases like "Yoshi", "Not bad!"''\<close>

definition SYSTEM_PROMPTS :: "(string \<times> string) list" where
  "SYSTEM_PROMPTS =
     [(''default'', default_prompt), (''luffy'', luffy_prompt),
      (''ironman'', ironman_prompt), (''goku'', goku_prompt)]"

text \<open>
  The input of \<^verbatim>\<open>sendChat\<close> as the caller sends it: \<^verbatim>\<open>character\<close> may be omitted.
\<close>

record sendChat_request =
  req_content :: string
  req_character :: "string option"

record sendChat_input =
  in_content :: string
  in_character :: string

text \<open>
  \<^verbatim>\<open>z.object({content: z.string().min(1).max(10000),
     character: z.enum(["default", "luffy", "ironman", "goku"]).optional().default("default")})\<close>
  The procedure layer parses the input with this schema before it runs the mutation.
\<close>

definition sendChat_schema :: "sendChat_request \<Rightarrow> error + sendChat_input" where
  "sendChat_schema req =
     (if 1 \<le> length (req_content req) \<and> length (req_content req) \<le> 10000 then
        (case req_character req of
           None \<Rightarrow> Inr \<lparr>in_content = req_content req, in_character = ''default''\<rparr>
         | Some c \<Rightarrow>
             if c \<in> set [''default'', ''luffy'', ''ironman'', ''goku'']
             then Inr \<lparr>in_content = req_content req, in_character = c\<rparr>
             else Inl ValidationError)
      else Inl ValidationError)"

record sendChat_response =
  userMessage :: Message
  assistantMessage :: Message

text \<open>
  \<^verbatim>\<open>sendChat\<close>. The hosted model is the parameter \<open>generateText\<close>: from the system
  prompt and the messages it returns the text or throws. \<open>t1\<close> and \<open>t2\<close> are the
  readings of the database clock at the two inserts.
\<close>

definition sendChat ::
  "(string option \<Rightarrow> model_message list \<Rightarrow> error + string) \<Rightarrow> int \<Rightarrow> int \<Rightarrow>
   sendChat_request \<Rightarrow> message_store \<Rightarrow>
   (sendChat_response, string option \<times> model_message list) outcome" where
  "sendChat generateText t1 t2 req db =
     (case sendChat_schema req of
        Inl e \<Rightarrow> \<lparr>outcome_result = Inl e, outcome_store = db, outcome_calls = []\<rparr>
      | Inr input \<Rightarrow>
          (let (userMsg, db1) = insertMessage t1 ''user'' (in_content input) db;
               history = selectRecent 10 db1;
               messages = rev history;
               systemPrompt = map_of SYSTEM_PROMPTS (in_character input);
               call = (systemPrompt, map (\<lambda>msg. (m_role msg, m_content msg)) messages)
           in case generateText systemPrompt (snd call) of
                Inl e \<Rightarrow> \<lparr>outcome_result = Inl e, outcome_store = db1, outcome_calls = [call]\<rparr>
              | Inr text \<Rightarrow>
                  (let (assistantMsg, db2) = insertMessage t2 ''assistant'' text db1
                   in \<lparr>outcome_result =
                          Inr \<lparr>userMessage = userMsg, assistantMessage = assistantMsg\<rparr>,
                        outcome_store = db2, outcome_calls = [call]\<rparr>)))"

section \<open>The agent router\<close>

text \<open>Values of JavaScript that cross the router boundary as data.\<close>

datatype jsvalue =
  JUndefined | JNull | JBool bool | JNum int | JStr string | JDate int
  | JArr "jsvalue list" | JObj "(string \<times> jsvalue) list"

text \<open>
  A message of the agent's result: its \<^verbatim>\<open>content\<close> is a string, an array of parts (a part
  is a string or an object whose \<^verbatim>\<open>text\<close> may be missing), or something else; its
  \<^verbatim>\<open>tool_calls\<close> is \<open>None\<close> when the property is absent or not an array.
\<close>

datatype content_part = TextString string | ContentBlock "string option"

datatype message_content =
  StringContent string | ArrayContent "content_part list" | OtherContent

record raw_tool_call =
  raw_name :: "string option"
  raw_args :: jsvalue

record agent_message =
  am_content :: message_content
  am_tool_calls :: "raw_tool_call list option"

record toolCallEntry =
  tc_toolName :: string
  tc_input :: jsvalue
  tc_output :: jsvalue
  tc_timestamp :: string
  tc_success :: bool

record chat_request =
  req_message :: string

text \<open>\<^verbatim>\<open>z.object({message: z.string().min(1).max(10000)})\<close>, in both versions.\<close>

definition chat_schema :: "chat_request \<Rightarrow> error + string" where
  "chat_schema req =
     (if 1 \<le> length (req_message req) \<and> length (req_message req) \<le> 10000
      then Inr (req_message req) else Inl ValidationError)"

record chat_response = sendChat_response +
  toolCalls :: "toolCallEntry list option"

text \<open>
  Step 8 of \<^verbatim>\<open>chat\<close>: the text of the last result message. \<^verbatim>\<open>c.text || ""\<close> is the text
  of a part, or the empty string when it is missing; for no last message and for any
  other content the expression falls through to \<^verbatim>\<open>""\<close>.
\<close>

definition partText :: "content_part \<Rightarrow> string" where
  "partText c =
     (case c of
        TextString s \<Rightarrow> s
      | ContentBlock t \<Rightarrow> (case t of None \<Rightarrow> [] | Some s \<Rightarrow> s))"

definition aiResponse :: "agent_message list \<Rightarrow> string" where
  "aiResponse resultMessages =
     (if resultMessages = [] then []
      else (case am_content (last resultMessages) of
              StringContent s \<Rightarrow> s
            | ArrayContent parts \<Rightarrow> concat (map partText parts)
            | OtherContent \<Rightarrow> []))"

text \<open>
  Step 9: the two nested loops over the result messages and their \<^verbatim>\<open>tool_calls\<close>. The
  calls are visited in order; \<open>isoNow k\<close> is what \<^verbatim>\<open>new Date().toISOString()\<close> gives at
  the \<open>k\<close>-th push. \<^verbatim>\<open>toolCall.name || "unknown"\<close> replaces a missing and an empty name.
\<close>

definition issuedToolCalls :: "agent_message list \<Rightarrow> raw_tool_call list" where
  "issuedToolCalls resultMessages =
     concat (map (\<lambda>msg. case am_tool_calls msg of None \<Rightarrow> [] | Some tcs \<Rightarrow> tcs)
               resultMessages)"

definition toolCallEntryOf :: "(nat \<Rightarrow> string) \<Rightarrow> nat \<times> raw_tool_call \<Rightarrow> toolCallEntry" where
  "toolCallEntryOf isoNow kc =
     \<lparr>tc_toolName =
        (case raw_name (snd kc) of
           None \<Rightarrow> ''unknown''
         | Some n \<Rightarrow> if n = [] then ''unknown'' else n),
      tc_input = raw_args (snd kc),
      tc_output = JObj [],
      tc_timestamp = isoNow (fst kc),
      tc_success = True\<rparr>"

definition extractToolCalls :: "(nat \<Rightarrow> string) \<Rightarrow> agent_message list \<Rightarrow> toolCallEntry list" where
  "extractToolCalls isoNow resultMessages =
     map (toolCallEntryOf isoNow) (enumerate 0 (issuedToolCalls resultMessages))"

text \<open>
  \<^verbatim>\<open>chat\<close> of the agent router built on \<^verbatim>\<open>createAgent\<close>. The parameter \<open>agent\<close> stands
  for steps 4 to 7: building the tools and the agent and invoking it on the conversation;
  it returns the result messages or throws. Its tools reach the user and post routers
  only, so the message table is as the procedure left it when the agent returns.
\<close>

definition chat ::
  "(model_message list \<Rightarrow> error + agent_message list) \<Rightarrow> (nat \<Rightarrow> string) \<Rightarrow> int \<Rightarrow> int \<Rightarrow>
   chat_request \<Rightarrow> message_store \<Rightarrow> (chat_response, model_message list) outcome" where
  "chat agent isoNow t1 t2 req db =
     (case chat_schema req of
        Inl e \<Rightarrow> \<lparr>outcome_result = Inl e, outcome_store = db, outcome_calls = []\<rparr>
      | Inr message \<Rightarrow>
          (let (userMsg, db1) = insertMessage t1 ''user'' message db;
               history = selectRecent 10 db1;
               previousMessages = rev history;
               conversationMessages =
                 map (\<lambda>msg. (if m_role msg = ''user'' then ''user'' else ''assistant'',
                             m_content msg)) previousMessages
                 @ [(''user'', message)]
           in case agent conversationMessages of
                Inl e \<Rightarrow>
                  \<lparr>outcome_result = Inl e, outcome_store = db1,
                   outcome_calls = [conversationMessages]\<rparr>
              | Inr resultMessages \<Rightarrow>
                  (let tcs = extractToolCalls isoNow resultMessages;
                       (assistantMsg, db2) =
                         insertMessage t2 ''assistant'' (aiResponse resultMessages) db1
                   in \<lparr>outcome_result =
                          Inr \<lparr>userMessage = userMsg, assistantMessage = assistantMsg,
                               toolCalls = (if length tcs > 0 then Some tcs else None)\<rparr>,
                        outcome_store = db2,
                        outcome_calls = [conversationMessages]\<rparr>)))"

text \<open>
  \<^verbatim>\<open>chat\<close> of the agent router built on \<^verbatim>\<open>AgentExecutor\<close> (\<^verbatim>\<open>router/agent.ts\<close>). There
  steps 1 to 6 build the executor before the user turn is saved; \<open>build\<close> is their
  result, the executor or what they threw. The executor receives \<^verbatim>\<open>input\<close> and
  \<^verbatim>\<open>chat_history\<close>.
\<close>

record agent_step =
  step_tool :: string
  step_toolInput :: jsvalue
  step_observation :: jsvalue

record executor_input =
  ex_input :: string
  ex_chat_history :: "model_message list"

record executor_result =
  ex_output :: string
  ex_intermediateSteps :: "agent_step list option"

record executor_response = sendChat_response +
  intermediateSteps :: "agent_step list option"

text \<open>
  The prompt template of that version puts the system text first, then
  \<^verbatim>\<open>{chat_history}\<close>, then the human \<^verbatim>\<open>{input}\<close>; the scratchpad that follows is empty
  when the agent starts.
\<close>

definition promptMessages :: "string \<Rightarrow> executor_input \<Rightarrow> model_message list" where
  "promptMessages systemText call =
     (''system'', systemText) # ex_chat_history call @ [(''human'', ex_input call)]"

definition chat_executor ::
  "(error + (executor_input \<Rightarrow> error + executor_result)) \<Rightarrow> int \<Rightarrow> int \<Rightarrow>
   chat_request \<Rightarrow> message_store \<Rightarrow> (executor_response, executor_input) outcome" where
  "chat_executor build t1 t2 req db =
     (case chat_schema req of
        Inl e \<Rightarrow> \<lparr>outcome_result = Inl e, outcome_store = db, outcome_calls = []\<rparr>
      | Inr message \<Rightarrow>
          (case build of
             Inl e \<Rightarrow> \<lparr>outcome_result = Inl e, outcome_store = db, outcome_calls = []\<rparr>
           | Inr executor \<Rightarrow>
               (let (userMsg, db1) = insertMessage t1 ''user'' message db;
                    history = selectRecent 10 db1;
                    messages = rev history;
                    chatHistory =
                      map (\<lambda>msg. if m_role msg = ''user'' then (''human'', m_content msg)
                                 else (''ai'', m_content msg)) messages;
                    call = \<lparr>ex_input = message, ex_chat_history = chatHistory\<rparr>
                in case executor call of
                     Inl e \<Rightarrow>
                       \<lparr>outcome_result = Inl e, outcome_store = db1, outcome_calls = [call]\<rparr>
                   | Inr res \<Rightarrow>
                       (let (assistantMsg, db2) =
                              insertMessage t2 ''assistant'' (ex_output res) db1
                        in \<lparr>outcome_result =
                               Inr \<lparr>userMessage = userMsg, assistantMessage = assistantMsg,
                                    intermediateSteps =
                                      map_option (map (\<lambda>step. step)) (ex_intermediateSteps res)\<rparr>,
                             outcome_store = db2, outcome_calls = [call]\<rparr>))))"

section \<open>The user and post tables and their routers\<close>

record User =
  u_id :: int
  u_name :: string
  u_email :: string
  u_bio :: "string option"
  u_createdAt :: int
  u_updatedAt :: int

record Post =
  p_id :: int
  p_userId :: int
  p_title :: string
  p_content :: string
  p_published :: bool
  p_createdAt :: int
  p_updatedAt :: int

record entity_store =
  userRows :: "User list"
  postRows :: "Post list"

text \<open>
  \<^verbatim>\<open>z.number().int().positive()\<close>, the schema of every id that the routers and the tools
  take: a positive safe integer.
\<close>

definition validId :: "int \<Rightarrow> bool" where
  "validId i = (0 < i \<and> i \<le> 9007199254740991)"

text \<open>
  The columns \<^verbatim>\<open>User.id\<close> and \<^verbatim>\<open>Post.userId\<close> are \<^verbatim>\<open>t.integer()\<close>, four-byte integers.
  A query that compares such a column with a larger number is refused by the database
  (integer out of range), and the procedure throws that error.
\<close>

definition int4Max :: int where
  "int4Max = 2147483647"

text \<open>
  \<^verbatim>\<open>user.getById\<close>: \<^verbatim>\<open>findFirst({where: eq(User.id, input.id), with: {posts: true}})\<close>,
  which resolves to \<^verbatim>\<open>undefined\<close> when no row matches.
\<close>

definition user_getById :: "int \<Rightarrow> entity_store \<Rightarrow> error + (User \<times> Post list) option" where
  "user_getById i es =
     (if validId i then
        (if int4Max < i then Inl StoreError
         else Inr (case find (\<lambda>u. u_id u = i) (userRows es) of
                     None \<Rightarrow> None
                   | Some u \<Rightarrow> Some (u, filter (\<lambda>p. p_userId p = u_id u) (postRows es))))
      else Inl ValidationError)"

text \<open>\<^verbatim>\<open>user.list\<close>: \<^verbatim>\<open>findMany({orderBy: desc(User.createdAt)})\<close>.\<close>

definition user_list :: "entity_store \<Rightarrow> User list" where
  "user_list es = sort_key (\<lambda>u. - u_createdAt u) (userRows es)"

text \<open>
  \<^verbatim>\<open>post.list\<close>: the input is optional, its \<^verbatim>\<open>limit\<close> a positive integer of at most 100
  that defaults to 50; each post comes with its author.
\<close>

definition post_list :: "int option \<Rightarrow> entity_store \<Rightarrow> error + (Post \<times> User option) list" where
  "post_list limit es =
     (let query = (\<lambda>l. map (\<lambda>p. (p, find (\<lambda>u. u_id u = p_userId p) (userRows es)))
                         (take (nat l) (sort_key (\<lambda>p. - p_createdAt p) (postRows es))))
      in case limit of
           None \<Rightarrow> Inr (query 50)
         | Some l \<Rightarrow> if 0 < l \<and> l \<le> 100 then Inr (query l) else Inl ValidationError)"

text \<open>
  \<^verbatim>\<open>post.listByUser\<close>:
  \<^verbatim>\<open>findMany({where: eq(Post.userId, input.userId), orderBy: desc(Post.createdAt)})\<close>.
\<close>

definition post_listByUser :: "int \<Rightarrow> entity_store \<Rightarrow> error + Post list" where
  "post_listByUser userId es =
     (if validId userId then
        (if int4Max < userId then Inl StoreError
         else Inr (sort_key (\<lambda>p. - p_createdAt p)
                     (filter (\<lambda>p. p_userId p = userId) (postRows es))))
      else Inl ValidationError)"

section \<open>The tool adapters\<close>

text \<open>
  A template literal prints an integer id in decimal digits, with a minus sign when it
  is negative.
\<close>

function decimal :: "nat \<Rightarrow> string" where
  "decimal n =
     (if n < 10 then [''0123456789'' ! n]
      else decimal (n div 10) @ [''0123456789'' ! (n mod 10)])"
  by pat_completeness auto
termination
  by (relation "measure (\<lambda>n. n)") auto

declare decimal.simps [simp del]

definition numberToString :: "int \<Rightarrow> string" where
  "numberToString i = (if i < 0 then CHR ''-'' # decimal (nat (- i)) else decimal (nat i))"

text \<open>
  The \<^verbatim>\<open>func\<close> of each reading tool. It returns its text or throws what the router
  procedure it calls throws. \<open>stringify\<close> stands for \<^verbatim>\<open>JSON.stringify(_, null, 2)\<close>.
\<close>

definition getUserTool :: "(jsvalue \<Rightarrow> string) \<Rightarrow> int \<Rightarrow> entity_store \<Rightarrow> error + string" where
  "getUserTool stringify i es =
     (case user_getById i es of
        Inl e \<Rightarrow> Inl e
      | Inr None \<Rightarrow> Inr (''User with ID '' @ numberToString i @ '' not found'')
      | Inr (Some (user, posts)) \<Rightarrow>
          Inr (stringify
                 (JObj [(''id'', JNum (u_id user)),
                        (''name'', JStr (u_name user)),
                        (''email'', JStr (u_email user)),
                        (''bio'', (case u_bio user of None \<Rightarrow> JNull | Some b \<Rightarrow> JStr b)),
                        (''postCount'', JNum (int (length posts))),
                        (''createdAt'', JDate (u_createdAt user))])))"

definition listUsersTool :: "(jsvalue \<Rightarrow> string) \<Rightarrow> entity_store \<Rightarrow> error + string" where
  "listUsersTool stringify es =
     (let users = user_list es
      in if length users = 0 then Inr ''No users found in the database.''
         else Inr (stringify
                     (JArr (map (\<lambda>u. JObj [(''id'', JNum (u_id u)),
                                           (''name'', JStr (u_name u)),
                                           (''email'', JStr (u_email u))]) users))))"

definition getPostsByUserTool ::
  "(jsvalue \<Rightarrow> string) \<Rightarrow> int \<Rightarrow> entity_store \<Rightarrow> error + string" where
  "getPostsByUserTool stringify userId es =
     (case post_listByUser userId es of
        Inl e \<Rightarrow> Inl e
      | Inr posts \<Rightarrow>
          if length posts = 0
          then Inr (''User '' @ numberToString userId @ '' has not created any posts yet.'')
          else Inr (stringify
                      (JArr (map (\<lambda>p. JObj [(''id'', JNum (p_id p)),
                                            (''title'', JStr (p_title p)),
                                            (''published'', JBool (p_published p)),
                                            (''contentPreview'',
                                               JStr (take 100 (p_content p) @ ''...'')),
                                            (''createdAt'', JDate (p_createdAt p))]) posts))))"

definition listPostsTool :: "(jsvalue \<Rightarrow> string) \<Rightarrow> entity_store \<Rightarrow> error + string" where
  "listPostsTool stringify es =
     (case post_list None es of
        Inl e \<Rightarrow> Inl e
      | Inr posts \<Rightarrow>
          if length posts = 0 then Inr ''No posts found in the database.''
          else Inr (stringify
                      (JArr (map (\<lambda>(p, author).
                                    JObj [(''id'', JNum (p_id p)),
                                          (''title'', JStr (p_title p)),
                                          (''authorName'',
                                             JStr (case author of
                                                     None \<Rightarrow> ''Unknown''
                                                   | Some a \<Rightarrow> u_name a)),
                                          (''published'', JBool (p_published p)),
                                          (''createdAt'', JDate (p_createdAt p))]) posts))))"

section \<open>The context window in the words of the specification\<close>

text \<open>
  The specification describes the context window as at most the \<open>k\<close> most recent
  messages of the table, in chronological order: \<open>w\<close> has \<open>k\<close> rows or the whole table when
  that is smaller, its rows are rows of the table, oldest first, and no row left out is
  more recent than a row of \<open>w\<close>. The procedures are compared with it below.
\<close>

definition chronologicalWindow :: "nat \<Rightarrow> Message list \<Rightarrow> Message list \<Rightarrow> bool" where
  "chronologicalWindow k table w =
     (length w = min k (length table)
      \<and> sorted (map m_createdAt w)
      \<and> mset w \<subseteq># mset table
      \<and> (\<forall>x\<in>set w. \<forall>y\<in>#(mset table - mset w). m_createdAt y \<le> m_createdAt x))"

text \<open>
  The \<open>n\<close> latest \<^verbatim>\<open>createdAt\<close> values of a table, latest first, each as often as rows
  bear it.
\<close>

definition recentTimes :: "nat \<Rightarrow> Message list \<Rightarrow> int list" where
  "recentTimes n table = take n (rev (sort (map m_createdAt table)))"

section \<open>Stores used as examples\<close>

definition sample_store :: message_store where
  "sample_store =
     \<lparr>rows = [\<lparr>m_id = 1, m_role = ''user'', m_content = ''Hello'', m_createdAt = 10\<rparr>,
              \<lparr>m_id = 2, m_role = ''assistant'', m_content = ''Hi there'', m_createdAt = 20\<rparr>,
              \<lparr>m_id = 3, m_role = ''user'', m_content = ''Bye'', m_createdAt = 30\<rparr>],
      nextId = 4\<rparr>"

text \<open>Two rows inserted at the same reading of the clock.\<close>

definition tied_store :: message_store where
  "tied_store =
     \<lparr>rows = [\<lparr>m_id = 1, m_role = ''user'', m_content = ''Hello'', m_createdAt = 10\<rparr>,
              \<lparr>m_id = 2, m_role = ''assistant'', m_content = ''Hi there'', m_createdAt = 10\<rparr>],
      nextId = 3\<rparr>"

text \<open>Eleven rows, one more than the context window holds.\<close>

definition long_store :: message_store where
  "long_store =
     \<lparr>rows = [\<lparr>m_id = 1, m_role = ''user'', m_content = ''q1'', m_createdAt = 101\<rparr>,
              \<lparr>m_id = 2, m_role = ''assistant'', m_content = ''a2'', m_createdAt = 102\<rparr>,
              \<lparr>m_id = 3, m_role = ''user'', m_content = ''q3'', m_createdAt = 103\<rparr>,
              \<lparr>m_id = 4, m_role = ''assistant'', m_content = ''a4'', m_createdAt = 104\<rparr>,
              \<lparr>m_id = 5, m_role = ''user'', m_content = ''q5'', m_createdAt = 105\<rparr>,
              \<lparr>m_id = 6, m_role = ''assistant'', m_content = ''a6'', m_createdAt = 106\<rparr>,
              \<lparr>m_id = 7, m_role = ''user'', m_content = ''q7'', m_createdAt = 107\<rparr>,
              \<lparr>m_id = 8, m_role = ''assistant'', m_content = ''a8'', m_createdAt = 108\<rparr>,
              \<lparr>m_id = 9, m_role = ''user'', m_content = ''q9'', m_createdAt = 109\<rparr>,
              \<lparr>m_id = 10, m_role = ''assistant'', m_content = ''a10'', m_createdAt = 110\<rparr>,
              \<lparr>m_id = 11, m_role = ''user'', m_content = ''q11'', m_createdAt = 111\<rparr>],
      nextId = 12\<rparr>"

text \<open>Two rows inserted at the same reading of the clock, and a later one.\<close>

definition early_tie_store :: message_store where
  "early_tie_store =
     \<lparr>rows = [\<lparr>m_id = 1, m_role = ''user'', m_content = ''Hello'', m_createdAt = 10\<rparr>,
              \<lparr>m_id = 2, m_role = ''assistant'', m_content = ''Hi there'', m_createdAt = 10\<rparr>,
              \<lparr>m_id = 3, m_role = ''user'', m_content = ''Bye'', m_createdAt = 20\<rparr>],
      nextId = 4\<rparr>"

definition empty_entities :: entity_store where
  "empty_entities = \<lparr>userRows = [], postRows = []\<rparr>"

text \<open>One user, with one post.\<close>

definition ada_entities :: entity_store where
  "ada_entities =
     \<lparr>userRows = [\<lparr>u_id = 1, u_name = ''Ada'', u_email = ''ada@example.com'', u_bio = None,
                    u_createdAt = 10, u_updatedAt = 10\<rparr>],
      postRows = [\<lparr>p_id = 1, p_userId = 1, p_title = ''Notes'', p_content = ''On engines'',
                    p_published = False, p_createdAt = 20, p_updatedAt = 20\<rparr>]\<rparr>"

section \<open>Clearing the conversation\<close>

text \<open>
  C10. \<^verbatim>\<open>clearMessages\<close> removes every row of any store, so that \<^verbatim>\<open>getMessages\<close>
  afterwards returns the empty sequence; it throws on no store, and run again on the
  store it left it succeeds, removes nothing and leaves that store as it is.
\<close>

theorem clearMessages_empties_and_is_idempotent:
  "getMessages (snd (clearMessages db)) = []
   \<and> rows (snd (clearMessages db)) = []
   \<and> fst (clearMessages db) = Inr (length (rows db))
   \<and> clearMessages (snd (clearMessages db)) = (Inr 0, snd (clearMessages db))"
  by (simp add: clearMessages_def getMessages_def)

section \<open>Ordering of the two message queries\<close>

lemma insort_key_snoc:
  fixes f :: "'a \<Rightarrow> int"
  assumes "f a \<le> f x"
  shows "insort_key f a (ys @ [x]) = insort_key f a ys @ [x]"
  using assms by (induction ys) auto

lemma sort_key_snoc:
  fixes f :: "'a \<Rightarrow> int"
  assumes "\<forall>y\<in>set xs. f y \<le> f x"
  shows "sort_key f (xs @ [x]) = sort_key f xs @ [x]"
  using assms by (induction xs) (auto simp: insort_key_snoc)

lemma sort_key_desc_snoc:
  fixes f :: "'a \<Rightarrow> int"
  assumes "\<forall>y\<in>set xs. f y < f x"
  shows "sort_key (\<lambda>m. - f m) (xs @ [x]) = x # sort_key (\<lambda>m. - f m) xs"
  using assms by (induction xs) auto

lemma mset_take_subseteq: "mset (take n xs) \<subseteq># mset xs"
proof -
  have "mset (take n xs) + mset (drop n xs) = mset xs"
    by (metis append_take_drop_id mset_append)
  then show ?thesis by (metis mset_subset_eq_add_left)
qed

lemma selectRecent_sorted:
  "sorted_wrt (\<lambda>a b. m_createdAt b \<le> m_createdAt a) (selectRecent n db)"
proof -
  have "sorted (map (\<lambda>m. - m_createdAt m) (sort_key (\<lambda>m. - m_createdAt m) (rows db)))"
    by (rule sorted_sort_key)
  then have "sorted_wrt (\<lambda>a b. m_createdAt b \<le> m_createdAt a)
               (sort_key (\<lambda>m. - m_createdAt m) (rows db))"
    by (simp add: sorted_map)
  then show ?thesis
    unfolding selectRecent_def by (rule sorted_wrt_take)
qed

lemma getMessages_sorted:
  "sorted_wrt (\<lambda>a b. m_createdAt a \<le> m_createdAt b) (getMessages db)"
proof -
  have "sorted (map m_createdAt (sort_key m_createdAt (rows db)))"
    by (rule sorted_sort_key)
  then show ?thesis by (simp add: getMessages_def sorted_map)
qed

text \<open>
  When no two rows share a \<^verbatim>\<open>createdAt\<close>, the answers of the two queries do not depend
  on how ties are resolved: any arrangement of the rows in the order asked for is the one
  that the model returns.
\<close>

lemma sorted_result_unique:
  fixes f :: "'a \<Rightarrow> int"
  assumes d: "distinct (map f xs)"
    and p: "mset ys = mset xs"
    and s: "sorted (map f ys)"
  shows "ys = sort_key f xs"
proof -
  have inj: "inj_on f (set xs)"
    using d by (simp add: distinct_map)
  have sets: "set ys = set xs"
    using p by (rule mset_eq_setD)
  have "mset (map f ys) = mset (map f xs)"
    using p by simp
  then have dy: "distinct (map f ys)"
    using d by (metis mset_eq_imp_distinct_iff)
  have ds: "distinct (map f (sort_key f xs))"
    using d inj by (simp add: distinct_map)
  have "set (map f ys) = set (map f (sort_key f xs))"
    using sets by simp
  then have "map f ys = map f (sort_key f xs)"
    using s dy ds sorted_sort_key [of f xs] by (intro sorted_distinct_set_unique)
  moreover have "inj_on f (set ys \<union> set (sort_key f xs))"
    using inj sets by simp
  ultimately show ?thesis
    by (simp add: inj_on_map_eq_map)
qed

lemma queries_determined_without_ties:
  assumes d: "distinct (map m_createdAt (rows db))"
  shows "mset ys = mset (rows db) \<Longrightarrow> sorted (map m_createdAt ys) \<Longrightarrow> ys = getMessages db"
    and "mset zs = mset (rows db) \<Longrightarrow> sorted (map (\<lambda>m. - m_createdAt m) zs)
           \<Longrightarrow> take n zs = selectRecent n db"
proof -
  show "mset ys = mset (rows db) \<Longrightarrow> sorted (map m_createdAt ys) \<Longrightarrow> ys = getMessages db"
    unfolding getMessages_def using d by (rule sorted_result_unique)
  have "distinct (map (\<lambda>m. - m_createdAt m) (rows db))"
    using d by (simp add: distinct_map inj_on_def)
  then have "zs = sort_key (\<lambda>m. - m_createdAt m) (rows db)"
    if "mset zs = mset (rows db)" "sorted (map (\<lambda>m. - m_createdAt m) zs)"
    using that by (intro sorted_result_unique)
  then show "mset zs = mset (rows db) \<Longrightarrow> sorted (map (\<lambda>m. - m_createdAt m) zs)
           \<Longrightarrow> take n zs = selectRecent n db"
    unfolding selectRecent_def by simp
qed

lemma ascending_times:
  fixes f :: "'a \<Rightarrow> int"
  assumes "mset ys = mset table" and "sorted (map f ys)"
  shows "map f ys = sort (map f table)"
proof -
  have "mset (map f ys) = mset (map f table)"
    using assms(1) by simp
  then show ?thesis
    using assms(2) properties_for_sort [of "map f ys" "map f table"] by simp
qed

lemma descending_times:
  fixes f :: "'a \<Rightarrow> int"
  assumes "mset zs = mset table" and "sorted (map (\<lambda>m. - f m) zs)"
  shows "map f zs = rev (sort (map f table))"
proof -
  have "sorted_wrt (\<lambda>a b. f b \<le> f a) zs"
    using assms(2) by (simp add: sorted_map)
  then have "sorted (rev (map f zs))"
    by (simp add: sorted_wrt_rev sorted_wrt_map)
  moreover have "mset (rev (map f zs)) = mset (map f table)"
    using assms(1) by simp
  ultimately have "sort (map f table) = rev (map f zs)"
    by (rule properties_for_sort [rotated])
  then show ?thesis by (simp add: rev_swap)
qed

lemma arrangements_agree:
  fixes f :: "'a \<Rightarrow> int"
  assumes ys: "mset ys = mset table" "sorted (map f ys)"
    and zs: "mset zs = mset table" "sorted (map (\<lambda>m. - f m) zs)"
    and untied: "\<forall>x\<in>set table. \<forall>y\<in>set table.
                   f x \<in> set (take n (rev (sort (map f table)))) \<and> f y = f x \<longrightarrow> y = x"
  shows "take n zs = take n (rev ys)"
proof (rule nth_equalityI)
  have ly: "length ys = length table" and lz: "length zs = length table"
    using ys(1) zs(1) by (auto dest: mset_eq_length)
  show "length (take n zs) = length (take n (rev ys))"
    by (simp add: ly lz)
  fix i assume "i < length (take n zs)"
  then have i: "i < n" "i < length table"
    by (simp_all add: lz)
  let ?ks = "rev (sort (map f table))"
  have kz: "map f zs = ?ks" using zs by (rule descending_times)
  have ky: "map f (rev ys) = ?ks"
    using ascending_times [OF ys] by (metis rev_map)
  have fz: "f (zs ! i) = ?ks ! i"
    using kz i lz by (metis nth_map)
  have fy: "f (rev ys ! i) = ?ks ! i"
    using ky i ly by (metis length_rev nth_map)
  have "?ks ! i \<in> set (take n ?ks)"
    using i by (metis in_set_conv_nth length_map length_rev length_sort length_take
        min_less_iff_conj nth_take)
  then have recent: "f (zs ! i) \<in> set (take n ?ks)"
    by (simp only: fz)
  have mz: "zs ! i \<in> set table"
    using i lz zs(1) by (metis mset_eq_setD nth_mem)
  have my: "rev ys ! i \<in> set table"
    using i ly ys(1) by (metis length_rev mset_eq_setD nth_mem set_rev)
  have "rev ys ! i = zs ! i"
    using untied mz my recent fy fz by metis
  then show "take n zs ! i = take n (rev ys) ! i"
    using i by simp
qed

lemma selectRecent_times:
  "map m_createdAt (selectRecent n db) = recentTimes n (rows db)"
proof -
  have "map m_createdAt (sort_key (\<lambda>m. - m_createdAt m) (rows db))
          = rev (sort (map m_createdAt (rows db)))"
    by (rule descending_times) simp_all
  then show ?thesis
    by (simp add: selectRecent_def recentTimes_def flip: take_map)
qed

lemma getMessages_times:
  "map m_createdAt (getMessages db) = sort (map m_createdAt (rows db))"
  unfolding getMessages_def by (rule ascending_times) simp_all

text \<open>
  C3, as amended. For every store and every \<open>n\<close>, \<^verbatim>\<open>recent(n)\<close> returns \<open>n\<close> of the stored
  rows, or all of them when there are fewer, most recent first, and \<^verbatim>\<open>getMessages\<close> returns
  all the rows, oldest first. The \<^verbatim>\<open>createdAt\<close> values of \<^verbatim>\<open>recent(n)\<close> are the first \<open>n\<close>
  of the \<^verbatim>\<open>createdAt\<close> values of \<^verbatim>\<open>getMessages\<close> read backwards, and when \<open>n\<close> covers the
  table the two queries return the same rows. \<^verbatim>\<open>recent(n)\<close> is the first \<open>n\<close> rows of the
  reverse of \<^verbatim>\<open>getMessages\<close> whenever none of the \<open>n\<close> latest \<^verbatim>\<open>createdAt\<close> values is borne by
  two different rows, and the whole reverse when \<open>n\<close> also covers the table. All of this
  holds of any two arrangements of the rows in the two orders asked for, so it does not
  rest on the order in which rows with equal \<^verbatim>\<open>createdAt\<close> come back.
\<close>

theorem recent_and_all_ordering:
  "length (selectRecent n db) = min n (length (rows db))
   \<and> sorted_wrt (\<lambda>a b. m_createdAt b \<le> m_createdAt a) (selectRecent n db)
   \<and> mset (selectRecent n db) \<subseteq># mset (rows db)
   \<and> sorted_wrt (\<lambda>a b. m_createdAt a \<le> m_createdAt b) (getMessages db)
   \<and> mset (getMessages db) = mset (rows db)
   \<and> map m_createdAt (selectRecent n db) = take n (rev (map m_createdAt (getMessages db)))
   \<and> (length (rows db) \<le> n \<longrightarrow> mset (selectRecent n db) = mset (getMessages db))
   \<and> ((\<forall>x\<in>set (rows db). \<forall>y\<in>set (rows db).
          m_createdAt x \<in> set (recentTimes n (rows db)) \<and> m_createdAt y = m_createdAt x
          \<longrightarrow> y = x)
        \<longrightarrow> selectRecent n db = take n (rev (getMessages db))
          \<and> (length (rows db) \<le> n \<longrightarrow> selectRecent n db = rev (getMessages db)))
   \<and> (\<forall>ys zs. mset ys = mset (rows db) \<and> sorted (map m_createdAt ys)
          \<and> mset zs = mset (rows db) \<and> sorted (map (\<lambda>m. - m_createdAt m) zs)
        \<longrightarrow> length (take n zs) = min n (length ys)
          \<and> map m_createdAt (take n zs) = take n (rev (map m_createdAt ys))
          \<and> ((\<forall>x\<in>set (rows db). \<forall>y\<in>set (rows db).
                 m_createdAt x \<in> set (recentTimes n (rows db))
                 \<and> m_createdAt y = m_createdAt x \<longrightarrow> y = x)
               \<longrightarrow> take n zs = take n (rev ys)))"
proof -
  let ?untied = "\<forall>x\<in>set (rows db). \<forall>y\<in>set (rows db).
          m_createdAt x \<in> set (recentTimes n (rows db)) \<and> m_createdAt y = m_createdAt x
          \<longrightarrow> y = x"
  have c1: "length (selectRecent n db) = min n (length (rows db))"
    by (simp add: selectRecent_def min.commute)
  have c3: "mset (selectRecent n db) \<subseteq># mset (rows db)"
    using mset_take_subseteq [of n "sort_key (\<lambda>m. - m_createdAt m) (rows db)"]
    by (simp add: selectRecent_def)
  have c5: "mset (getMessages db) = mset (rows db)"
    by (simp add: getMessages_def)
  have c6: "map m_createdAt (selectRecent n db)
              = take n (rev (map m_createdAt (getMessages db)))"
    by (simp add: selectRecent_times getMessages_times recentTimes_def)
  have c7: "mset (selectRecent n db) = mset (getMessages db)" if "length (rows db) \<le> n"
    using that by (simp add: selectRecent_def getMessages_def)
  have general: "length (take n zs) = min n (length ys)
          \<and> map m_createdAt (take n zs) = take n (rev (map m_createdAt ys))
          \<and> (?untied \<longrightarrow> take n zs = take n (rev ys))"
    if a: "mset ys = mset (rows db) \<and> sorted (map m_createdAt ys)
          \<and> mset zs = mset (rows db) \<and> sorted (map (\<lambda>m. - m_createdAt m) zs)"
    for ys zs
  proof (intro conjI impI)
    have "length zs = length ys"
      using a by (metis mset_eq_length)
    then show "length (take n zs) = min n (length ys)"
      by (simp add: min.commute)
    have "map m_createdAt zs = rev (sort (map m_createdAt (rows db)))"
      using a by (intro descending_times) simp_all
    moreover have "map m_createdAt ys = sort (map m_createdAt (rows db))"
      using a by (intro ascending_times) simp_all
    ultimately show "map m_createdAt (take n zs) = take n (rev (map m_createdAt ys))"
      by (simp flip: take_map)
    assume u: ?untied
    show "take n zs = take n (rev ys)"
      using a u unfolding recentTimes_def by (intro arrangements_agree) simp_all
  qed
  have c8: "selectRecent n db = take n (rev (getMessages db))" if ?untied
    using general [of "getMessages db" "sort_key (\<lambda>m. - m_createdAt m) (rows db)"] that
    by (simp add: selectRecent_def getMessages_def)
  have c9: "selectRecent n db = rev (getMessages db)" if ?untied "length (rows db) \<le> n"
    using c8 [OF that(1)] that(2) by (simp add: getMessages_def)
  show ?thesis
    using c1 c3 c5 c6 c7 c8 c9 general selectRecent_sorted [of n db] getMessages_sorted [of db]
    by (intro conjI impI allI) blast+
qed

theorem recent_and_all_ordering_witness:
  "recentTimes 1 (rows early_tie_store) = [20]
   \<and> selectRecent 1 early_tie_store = take 1 (rev (getMessages early_tie_store))
   \<and> selectRecent 1 early_tie_store
       = [\<lparr>m_id = 3, m_role = ''user'', m_content = ''Bye'', m_createdAt = 20\<rparr>]
   \<and> map m_createdAt (selectRecent 3 early_tie_store) = [20, 10, 10]
   \<and> map m_createdAt (getMessages early_tie_store) = [10, 10, 20]
   \<and> recentTimes 3 (rows sample_store) = [30, 20, 10]
   \<and> selectRecent 3 sample_store = rev (getMessages sample_store)"
proof -
  have t1: "recentTimes 1 (rows early_tie_store) = [20]"
    by (simp add: recentTimes_def early_tie_store_def)
  have t3: "recentTimes 3 (rows sample_store) = [30, 20, 10]"
    by (simp add: recentTimes_def sample_store_def)
  have u1: "\<forall>x\<in>set (rows early_tie_store). \<forall>y\<in>set (rows early_tie_store).
          m_createdAt x \<in> set (recentTimes 1 (rows early_tie_store))
          \<and> m_createdAt y = m_createdAt x \<longrightarrow> y = x"
    unfolding t1 by (simp add: early_tie_store_def)
  have u3: "\<forall>x\<in>set (rows sample_store). \<forall>y\<in>set (rows sample_store).
          m_createdAt x \<in> set (recentTimes 3 (rows sample_store))
          \<and> m_createdAt y = m_createdAt x \<longrightarrow> y = x"
    unfolding t3 by (simp add: sample_store_def)
  have l3: "length (rows sample_store) \<le> 3"
    by (simp add: sample_store_def)
  note a = recent_and_all_ordering [of 1 early_tie_store]
  note b = recent_and_all_ordering [of 3 sample_store]
  have r1: "selectRecent 1 early_tie_store = take 1 (rev (getMessages early_tie_store))"
    using a u1 by blast
  have r3: "selectRecent 3 sample_store = rev (getMessages sample_store)"
    using b u3 l3 by blast
  have v1: "take 1 (rev (getMessages early_tie_store))
              = [\<lparr>m_id = 3, m_role = ''user'', m_content = ''Bye'', m_createdAt = 20\<rparr>]"
    by (simp add: getMessages_def early_tie_store_def)
  have k1: "map m_createdAt (selectRecent 3 early_tie_store) = [20, 10, 10]"
    by (simp add: selectRecent_def early_tie_store_def)
  have k2: "map m_createdAt (getMessages early_tie_store) = [10, 10, 20]"
    by (simp add: getMessages_def early_tie_store_def)
  show ?thesis
    using t1 t3 r1 r3 v1 k1 k2 by simp
qed

text \<open>
  C3 as stated fails where two rows share a \<^verbatim>\<open>createdAt\<close>: both queries sort by that
  column alone, so both return the tied rows in the same order, and \<^verbatim>\<open>recent\<close> is not
  the reverse of \<^verbatim>\<open>getMessages\<close> although they return the same rows.
\<close>

theorem recent_not_reverse_of_all_on_ties:
  "mset (selectRecent 2 tied_store) = mset (getMessages tied_store)
   \<and> selectRecent 2 tied_store = getMessages tied_store
   \<and> selectRecent 2 tied_store \<noteq> rev (getMessages tied_store)"
  by (simp add: tied_store_def selectRecent_def getMessages_def)

section \<open>What a call to the hosted model decides\<close>

text \<open>
  A procedure that reached the hosted model has one call in its outcome; the lemmas below
  give the outcome for each answer of that call.
\<close>

lemma sendChat_schema_content:
  "sendChat_schema req = Inr inp \<Longrightarrow> in_content inp = req_content req"
  by (auto simp: sendChat_schema_def split: if_splits option.splits)

lemma chat_schema_message:
  "chat_schema req = Inr msg \<Longrightarrow> msg = req_message req"
  by (auto simp: chat_schema_def split: if_splits)

lemma chat_called_accepted:
  assumes "outcome_calls (chat agent isoNow t1 t2 req db) = [c]"
  shows "chat_schema req = Inr (req_message req)"
  using assms chat_schema_message [of req]
  by (cases "chat_schema req") (simp_all add: chat_def)

lemma getMessages_after_insert:
  assumes "\<forall>m\<in>set (rows db). m_createdAt m \<le> t"
  shows "getMessages (snd (insertMessage t r c db))
           = getMessages db @ [\<lparr>m_id = nextId db, m_role = r, m_content = c, m_createdAt = t\<rparr>]"
  using assms by (simp add: getMessages_def insertMessage_def Let_def sort_key_snoc)

lemma rows_after_insert:
  "rows (snd (insertMessage t r c db))
     = rows db @ [\<lparr>m_id = nextId db, m_role = r, m_content = c, m_createdAt = t\<rparr>]"
  by (simp add: insertMessage_def Let_def)

lemma length_extractToolCalls:
  "length (extractToolCalls isoNow msgs) = length (issuedToolCalls msgs)"
  by (simp add: extractToolCalls_def)

lemma extractToolCalls_Nil_iff:
  "extractToolCalls isoNow msgs = [] \<longleftrightarrow> issuedToolCalls msgs = []"
  using length_extractToolCalls [of isoNow msgs] by (metis length_0_conv)

lemma chat_success:
  assumes "outcome_calls (chat agent isoNow t1 t2 req db) = [c]"
    and "agent c = Inr msgs"
  shows "outcome_result (chat agent isoNow t1 t2 req db)
           = Inr \<lparr>userMessage = \<lparr>m_id = nextId db, m_role = ''user'',
                                  m_content = req_message req, m_createdAt = t1\<rparr>,
                  assistantMessage = \<lparr>m_id = nextId db + 1, m_role = ''assistant'',
                                       m_content = aiResponse msgs, m_createdAt = t2\<rparr>,
                  toolCalls = (if issuedToolCalls msgs = [] then None
                               else Some (extractToolCalls isoNow msgs))\<rparr>
         \<and> rows (outcome_store (chat agent isoNow t1 t2 req db))
             = rows db @ [\<lparr>m_id = nextId db, m_role = ''user'',
                            m_content = req_message req, m_createdAt = t1\<rparr>,
                          \<lparr>m_id = nextId db + 1, m_role = ''assistant'',
                            m_content = aiResponse msgs, m_createdAt = t2\<rparr>]"
  using assms chat_called_accepted [OF assms(1)]
  by (auto simp: chat_def insertMessage_def Let_def extractToolCalls_Nil_iff
      split: sum.splits prod.splits)

section \<open>The outcome of an accepted request\<close>

text \<open>
  For an input that passes the schema, the whole outcome of \<^verbatim>\<open>sendChat\<close> and of the agent's
  \<^verbatim>\<open>chat\<close> is fixed by what the model answers to the one call made to it.
\<close>

lemma newest_row_is_last:
  fixes f :: "'a \<Rightarrow> int"
  assumes newest: "\<forall>m\<in>set xs. f m < f u"
    and arr: "mset ys = mset (xs @ [u])"
    and srt: "sorted (map f ys)"
  shows "ys \<noteq> [] \<and> last ys = u \<and> mset (butlast ys) = mset xs"
proof -
  have sets: "set ys = insert u (set xs)"
    using arr by (metis mset_eq_setD set_append list.set(1,2) Un_insert_right sup_bot.right_neutral)
  then have ne: "ys \<noteq> []" by auto
  then have split: "ys = butlast ys @ [last ys]" by simp
  have "sorted_wrt (\<lambda>a b. f a \<le> f b) ys"
    using srt by (simp add: sorted_map)
  then have "sorted_wrt (\<lambda>a b. f a \<le> f b) (butlast ys @ [last ys])"
    using split by simp
  then have below: "\<forall>x\<in>set (butlast ys). f x \<le> f (last ys)"
    by (simp add: sorted_wrt_append)
  have "u \<in> set ys" using sets by simp
  then have "u \<in> set (butlast ys) \<or> u = last ys"
    using split by (metis Un_iff insert_iff list.set(1,2) set_append empty_iff)
  then have le: "f u \<le> f (last ys)"
    using below by auto
  have "last ys \<in> set ys" using ne by simp
  then have "last ys = u \<or> last ys \<in> set xs"
    using sets by auto
  then have l: "last ys = u"
    using newest le by force
  have "mset (butlast ys) + {#last ys#} = mset xs + {#u#}"
    using arr split by (metis mset_append mset.simps(1,2) add_mset_add_single union_mset_add_mset_right)
  then have "mset (butlast ys) = mset xs"
    using l by simp
  with ne l show ?thesis by simp
qed

lemma sendChat_throws:
  assumes "sendChat_schema req = Inr inp"
    and "gen (map_of SYSTEM_PROMPTS (in_character inp))
           (map (\<lambda>m. (m_role m, m_content m))
              (rev (selectRecent 10 (snd (insertMessage t1 ''user'' (req_content req) db)))))
         = Inl e"
  shows "sendChat gen t1 t2 req db
           = \<lparr>outcome_result = Inl e,
              outcome_store =
                db\<lparr>rows := rows db @ [\<lparr>m_id = nextId db, m_role = ''user'',
                                       m_content = req_content req, m_createdAt = t1\<rparr>],
                   nextId := nextId db + 1\<rparr>,
              outcome_calls =
                [(map_of SYSTEM_PROMPTS (in_character inp),
                  map (\<lambda>m. (m_role m, m_content m))
                    (rev (selectRecent 10
                            (snd (insertMessage t1 ''user'' (req_content req) db)))))]\<rparr>"
  using assms sendChat_schema_content [OF assms(1)]
  by (simp add: sendChat_def insertMessage_def Let_def)

lemma sendChat_returns:
  assumes "sendChat_schema req = Inr inp"
    and "gen (map_of SYSTEM_PROMPTS (in_character inp))
           (map (\<lambda>m. (m_role m, m_content m))
              (rev (selectRecent 10 (snd (insertMessage t1 ''user'' (req_content req) db)))))
         = Inr txt"
  shows "sendChat gen t1 t2 req db
           = \<lparr>outcome_result =
                Inr \<lparr>userMessage = \<lparr>m_id = nextId db, m_role = ''user'',
                                     m_content = req_content req, m_createdAt = t1\<rparr>,
                     assistantMessage = \<lparr>m_id = nextId db + 1, m_role = ''assistant'',
                                          m_content = txt, m_createdAt = t2\<rparr>\<rparr>,
              outcome_store =
                db\<lparr>rows := rows db @ [\<lparr>m_id = nextId db, m_role = ''user'',
                                       m_content = req_content req, m_createdAt = t1\<rparr>,
                                     \<lparr>m_id = nextId db + 1, m_role = ''assistant'',
                                       m_content = txt, m_createdAt = t2\<rparr>],
                   nextId := nextId db + 2\<rparr>,
              outcome_calls =
                [(map_of SYSTEM_PROMPTS (in_character inp),
                  map (\<lambda>m. (m_role m, m_content m))
                    (rev (selectRecent 10
                            (snd (insertMessage t1 ''user'' (req_content req) db)))))]\<rparr>"
  using assms sendChat_schema_content [OF assms(1)]
  by (simp add: sendChat_def insertMessage_def Let_def)

lemma chat_throws:
  assumes "chat_schema req = Inr msg"
    and "agent (map (\<lambda>m. (if m_role m = ''user'' then ''user'' else ''assistant'', m_content m))
                  (rev (selectRecent 10 (snd (insertMessage t1 ''user'' msg db))))
                @ [(''user'', msg)])
         = Inl e"
  shows "chat agent isoNow t1 t2 req db
           = \<lparr>outcome_result = Inl e,
              outcome_store =
                db\<lparr>rows := rows db @ [\<lparr>m_id = nextId db, m_role = ''user'',
                                       m_content = msg, m_createdAt = t1\<rparr>],
                   nextId := nextId db + 1\<rparr>,
              outcome_calls =
                [map (\<lambda>m. (if m_role m = ''user'' then ''user'' else ''assistant'', m_content m))
                   (rev (selectRecent 10 (snd (insertMessage t1 ''user'' msg db))))
                 @ [(''user'', msg)]]\<rparr>"
  using assms by (simp add: chat_def insertMessage_def Let_def)

lemma chat_returns:
  assumes "chat_schema req = Inr msg"
    and "agent (map (\<lambda>m. (if m_role m = ''user'' then ''user'' else ''assistant'', m_content m))
                  (rev (selectRecent 10 (snd (insertMessage t1 ''user'' msg db))))
                @ [(''user'', msg)])
         = Inr msgs"
  shows "chat agent isoNow t1 t2 req db
           = \<lparr>outcome_result =
                Inr \<lparr>userMessage = \<lparr>m_id = nextId db, m_role = ''user'',
                                     m_content = msg, m_createdAt = t1\<rparr>,
                     assistantMessage = \<lparr>m_id = nextId db + 1, m_role = ''assistant'',
                                          m_content = aiResponse msgs, m_createdAt = t2\<rparr>,
                     toolCalls = (if issuedToolCalls msgs = [] then None
                                  else Some (extractToolCalls isoNow msgs))\<rparr>,
              outcome_store =
                db\<lparr>rows := rows db @ [\<lparr>m_id = nextId db, m_role = ''user'',
                                       m_content = msg, m_createdAt = t1\<rparr>,
                                     \<lparr>m_id = nextId db + 1, m_role = ''assistant'',
                                       m_content = aiResponse msgs, m_createdAt = t2\<rparr>],
                   nextId := nextId db + 2\<rparr>,
              outcome_calls =
                [map (\<lambda>m. (if m_role m = ''user'' then ''user'' else ''assistant'', m_content m))
                   (rev (selectRecent 10 (snd (insertMessage t1 ''user'' msg db))))
                 @ [(''user'', msg)]]\<rparr>"
  using assms
  by (simp add: chat_def insertMessage_def Let_def extractToolCalls_Nil_iff)

section \<open>A failed generation\<close>

text \<open>
  C1, as amended. When the call to the model throws, \<^verbatim>\<open>sendChat\<close> and the agent's \<^verbatim>\<open>chat\<close>
  end with that error, and the store holds the rows it held before followed by the user
  turn: no assistant row is added and the user row is not taken back. When the
  \<^verbatim>\<open>createdAt\<close> of the user row is later than that of every row stored before,
  \<^verbatim>\<open>getMessages\<close> afterwards returns the user's message as its last row, after the rows
  stored before; so does every arrangement of the rows in ascending \<^verbatim>\<open>createdAt\<close> order,
  however rows with equal \<^verbatim>\<open>createdAt\<close> are placed.
\<close>

theorem upstream_failure_keeps_user_turn:
  "(sendChat_schema sreq = Inr inp
      \<and> gen (map_of SYSTEM_PROMPTS (in_character inp))
            (map (\<lambda>m. (m_role m, m_content m))
               (rev (selectRecent 10 (snd (insertMessage t1 ''user'' (req_content sreq) db)))))
          = Inl e
     \<longrightarrow> sendChat gen t1 t2 sreq db
          = \<lparr>outcome_result = Inl e,
             outcome_store =
               db\<lparr>rows := rows db @ [\<lparr>m_id = nextId db, m_role = ''user'',
                                      m_content = req_content sreq, m_createdAt = t1\<rparr>],
                  nextId := nextId db + 1\<rparr>,
             outcome_calls =
               [(map_of SYSTEM_PROMPTS (in_character inp),
                 map (\<lambda>m. (m_role m, m_content m))
                   (rev (selectRecent 10
                           (snd (insertMessage t1 ''user'' (req_content sreq) db)))))]\<rparr>)
   \<and> (chat_schema creq = Inr msg
      \<and> agent (map (\<lambda>m. (if m_role m = ''user'' then ''user'' else ''assistant'',
                            m_content m))
                  (rev (selectRecent 10 (snd (insertMessage t1 ''user'' msg db))))
                @ [(''user'', msg)])
          = Inl e'
     \<longrightarrow> chat agent isoNow t1 t2 creq db
          = \<lparr>outcome_result = Inl e',
             outcome_store =
               db\<lparr>rows := rows db @ [\<lparr>m_id = nextId db, m_role = ''user'',
                                      m_content = msg, m_createdAt = t1\<rparr>],
                  nextId := nextId db + 1\<rparr>,
             outcome_calls =
               [map (\<lambda>m. (if m_role m = ''user'' then ''user'' else ''assistant'',
                            m_content m))
                  (rev (selectRecent 10 (snd (insertMessage t1 ''user'' msg db))))
                @ [(''user'', msg)]]\<rparr>)
   \<and> ((\<forall>m\<in>set (rows db). m_createdAt m < t1)
     \<longrightarrow> getMessages
            (db\<lparr>rows := rows db @ [\<lparr>m_id = nextId db, m_role = ''user'',
                                   m_content = c, m_createdAt = t1\<rparr>],
               nextId := nextId db + 1\<rparr>)
          = getMessages db @ [\<lparr>m_id = nextId db, m_role = ''user'',
                                m_content = c, m_createdAt = t1\<rparr>]
        \<and> (\<forall>ys. mset ys = mset (rows db @ [\<lparr>m_id = nextId db, m_role = ''user'',
                                              m_content = c, m_createdAt = t1\<rparr>])
                  \<and> sorted (map m_createdAt ys)
              \<longrightarrow> ys \<noteq> []
                \<and> last ys = \<lparr>m_id = nextId db, m_role = ''user'',
                              m_content = c, m_createdAt = t1\<rparr>
                \<and> mset (butlast ys) = mset (rows db)))"
proof -
  let ?u = "\<lparr>m_id = nextId db, m_role = ''user'', m_content = c, m_createdAt = t1\<rparr>"
  have g: "getMessages (db\<lparr>rows := rows db @ [?u], nextId := nextId db + 1\<rparr>)
             = getMessages db @ [?u]"
    if "\<forall>m\<in>set (rows db). m_createdAt m < t1"
  proof -
    from that have "\<forall>m\<in>set (rows db). m_createdAt m \<le> t1" by auto
    then show ?thesis
      using getMessages_after_insert [of db t1 "''user''" c]
      by (simp add: insertMessage_def Let_def)
  qed
  have a: "ys \<noteq> [] \<and> last ys = ?u \<and> mset (butlast ys) = mset (rows db)"
    if "\<forall>m\<in>set (rows db). m_createdAt m < t1"
      and "mset ys = mset (rows db @ [?u]) \<and> sorted (map m_createdAt ys)" for ys
    using that newest_row_is_last [of "rows db" m_createdAt ?u ys] by simp
  show ?thesis
    using sendChat_throws [of sreq inp gen t1 db e t2]
      chat_throws [of creq msg agent t1 db e' isoNow t2] g a
    by (intro conjI impI allI) blast+
qed

theorem upstream_failure_keeps_user_turn_witness:
  "map m_createdAt (rows sample_store) = [10, 20, 30]
   \<and> sendChat (\<lambda>_ _. Inl UpstreamGenerationError) 40 41
        \<lparr>req_content = ''Ping'', req_character = None\<rparr> sample_store
       = \<lparr>outcome_result = Inl UpstreamGenerationError,
          outcome_store =
            \<lparr>rows = rows sample_store
                     @ [\<lparr>m_id = 4, m_role = ''user'', m_content = ''Ping'', m_createdAt = 40\<rparr>],
             nextId = 5\<rparr>,
          outcome_calls =
            [(Some default_prompt,
              [(''user'', ''Hello''), (''assistant'', ''Hi there''), (''user'', ''Bye''),
               (''user'', ''Ping'')])]\<rparr>
   \<and> chat (\<lambda>_. Inl UpstreamGenerationError) (\<lambda>_. ''t'') 40 41
        \<lparr>req_message = ''Ping''\<rparr> sample_store
       = \<lparr>outcome_result = Inl UpstreamGenerationError,
          outcome_store =
            \<lparr>rows = rows sample_store
                     @ [\<lparr>m_id = 4, m_role = ''user'', m_content = ''Ping'', m_createdAt = 40\<rparr>],
             nextId = 5\<rparr>,
          outcome_calls =
            [[(''user'', ''Hello''), (''assistant'', ''Hi there''), (''user'', ''Bye''),
              (''user'', ''Ping''), (''user'', ''Ping'')]]\<rparr>
   \<and> last (getMessages
        \<lparr>rows = rows sample_store
                 @ [\<lparr>m_id = 4, m_role = ''user'', m_content = ''Ping'', m_createdAt = 40\<rparr>],
         nextId = 5\<rparr>)
       = \<lparr>m_id = 4, m_role = ''user'', m_content = ''Ping'', m_createdAt = 40\<rparr>"
proof -
  let ?gen = "\<lambda>(_::string option) (_::model_message list). (Inl UpstreamGenerationError :: error + string)"
  let ?agent = "\<lambda>(_::model_message list). (Inl UpstreamGenerationError :: error + agent_message list)"
  let ?sreq = "\<lparr>req_content = ''Ping'', req_character = None\<rparr>"
  let ?creq = "\<lparr>req_message = ''Ping''\<rparr>"
  let ?inp = "\<lparr>in_content = ''Ping'', in_character = ''default''\<rparr>"
  let ?u = "\<lparr>m_id = 4, m_role = ''user'', m_content = ''Ping'', m_createdAt = 40\<rparr>"
  note inst = upstream_failure_keeps_user_turn
    [of ?sreq ?inp ?gen 40 sample_store UpstreamGenerationError 41 ?creq "''Ping''" ?agent
        UpstreamGenerationError "\<lambda>_. ''t''" "''Ping''"]
  have s: "sendChat_schema ?sreq = Inr ?inp"
    by (simp add: sendChat_schema_def)
  have c: "chat_schema ?creq = Inr ''Ping''"
    by (simp add: chat_schema_def)
  have ts: "map m_createdAt (rows sample_store) = [10, 20, 30]"
    by (simp add: sample_store_def)
  have newest: "\<forall>m\<in>set (rows sample_store). m_createdAt m < 40"
    by (simp add: sample_store_def)
  have n: "nextId sample_store = 4"
    by (simp add: sample_store_def)
  have upd: "sample_store\<lparr>rows := rows sample_store @ [?u], nextId := 5\<rparr>
               = \<lparr>rows = rows sample_store @ [?u], nextId = 5\<rparr>"
    by simp
  have w: "rev (selectRecent 10 (snd (insertMessage 40 ''user'' ''Ping'' sample_store)))
             = rows sample_store @ [?u]"
    by (simp add: selectRecent_def insertMessage_def Let_def sample_store_def)
  have p: "map_of SYSTEM_PROMPTS ''default'' = Some default_prompt"
    by (simp add: SYSTEM_PROMPTS_def)
  have r1: "sendChat ?gen 40 41 ?sreq sample_store
       = \<lparr>outcome_result = Inl UpstreamGenerationError,
          outcome_store = \<lparr>rows = rows sample_store @ [?u], nextId = 5\<rparr>,
          outcome_calls =
            [(Some default_prompt,
              map (\<lambda>m. (m_role m, m_content m)) (rows sample_store @ [?u]))]\<rparr>"
    using inst s by (simp add: n w p upd)
  have r2: "chat ?agent (\<lambda>_. ''t'') 40 41 ?creq sample_store
       = \<lparr>outcome_result = Inl UpstreamGenerationError,
          outcome_store = \<lparr>rows = rows sample_store @ [?u], nextId = 5\<rparr>,
          outcome_calls =
            [map (\<lambda>m. (if m_role m = ''user'' then ''user'' else ''assistant'', m_content m))
               (rows sample_store @ [?u]) @ [(''user'', ''Ping'')]]\<rparr>"
    using inst c by (simp add: n w upd)
  have "getMessages \<lparr>rows = rows sample_store @ [?u], nextId = 5\<rparr>
          = getMessages sample_store @ [?u]"
    using inst newest by (simp add: n upd)
  then have r3: "last (getMessages \<lparr>rows = rows sample_store @ [?u], nextId = 5\<rparr>) = ?u"
    by simp
  have e1: "map (\<lambda>m. (m_role m, m_content m)) (rows sample_store @ [?u])
              = [(''user'', ''Hello''), (''assistant'', ''Hi there''), (''user'', ''Bye''),
                 (''user'', ''Ping'')]"
    by (simp add: sample_store_def)
  have e2: "map (\<lambda>m. (if m_role m = ''user'' then ''user'' else ''assistant'', m_content m))
               (rows sample_store @ [?u]) @ [(''user'', ''Ping'')]
              = [(''user'', ''Hello''), (''assistant'', ''Hi there''), (''user'', ''Bye''),
                 (''user'', ''Ping''), (''user'', ''Ping'')]"
    by (simp add: sample_store_def)
  show ?thesis
    using ts r1 r2 r3 by (simp only: e1 e2 simp_thms)
qed

text \<open>
  C1 as stated makes the user's message the last row of \<^verbatim>\<open>getMessages\<close> after every failed
  call. \<^verbatim>\<open>getMessages\<close> orders by \<^verbatim>\<open>createdAt\<close>, not by insertion: when the database clock
  at the insert reads 25 and a stored row bears 30, the user row is persisted but the
  last row returned is the stored message \<^verbatim>\<open>Bye\<close>.
\<close>

theorem user_turn_not_last_when_clock_is_behind:
  "sendChat_schema \<lparr>req_content = ''Ping'', req_character = None\<rparr>
     = Inr \<lparr>in_content = ''Ping'', in_character = ''default''\<rparr>
   \<and> outcome_result
        (sendChat (\<lambda>_ _. Inl UpstreamGenerationError) 25 26
           \<lparr>req_content = ''Ping'', req_character = None\<rparr> sample_store)
       = Inl UpstreamGenerationError
   \<and> map m_createdAt (rows (outcome_store
        (sendChat (\<lambda>_ _. Inl UpstreamGenerationError) 25 26
           \<lparr>req_content = ''Ping'', req_character = None\<rparr> sample_store)))
       = [10, 20, 30, 25]
   \<and> getMessages (outcome_store
        (sendChat (\<lambda>_ _. Inl UpstreamGenerationError) 25 26
           \<lparr>req_content = ''Ping'', req_character = None\<rparr> sample_store))
       = [\<lparr>m_id = 1, m_role = ''user'', m_content = ''Hello'', m_createdAt = 10\<rparr>,
          \<lparr>m_id = 2, m_role = ''assistant'', m_content = ''Hi there'', m_createdAt = 20\<rparr>,
          \<lparr>m_id = 4, m_role = ''user'', m_content = ''Ping'', m_createdAt = 25\<rparr>,
          \<lparr>m_id = 3, m_role = ''user'', m_content = ''Bye'', m_createdAt = 30\<rparr>]
   \<and> last (getMessages (outcome_store
        (sendChat (\<lambda>_ _. Inl UpstreamGenerationError) 25 26
           \<lparr>req_content = ''Ping'', req_character = None\<rparr> sample_store)))
       \<noteq> \<lparr>m_id = 4, m_role = ''user'', m_content = ''Ping'', m_createdAt = 25\<rparr>"
  by (simp add: sendChat_def sendChat_schema_def insertMessage_def getMessages_def Let_def
      sample_store_def)

section \<open>An empty answer\<close>

text \<open>
  C5. For an accepted input, when the call succeeds with the empty text, the procedure
  inserts the user row and then an assistant row whose content is the empty string,
  leaves the store with exactly these two rows added, and returns the assistant row as
  \<^verbatim>\<open>assistantMessage\<close>. In the agent router the text is empty when the agent returns no
  message, or a last message whose content is the empty string, an empty array, or neither
  a string nor an array.
\<close>

theorem empty_text_is_persisted:
  "(sendChat_schema sreq = Inr inp
      \<and> gen (map_of SYSTEM_PROMPTS (in_character inp))
            (map (\<lambda>m. (m_role m, m_content m))
               (rev (selectRecent 10 (snd (insertMessage t1 ''user'' (req_content sreq) db)))))
          = Inr []
     \<longrightarrow> sendChat gen t1 t2 sreq db
          = \<lparr>outcome_result =
               Inr \<lparr>userMessage = \<lparr>m_id = nextId db, m_role = ''user'',
                                    m_content = req_content sreq, m_createdAt = t1\<rparr>,
                    assistantMessage = \<lparr>m_id = nextId db + 1, m_role = ''assistant'',
                                         m_content = [], m_createdAt = t2\<rparr>\<rparr>,
             outcome_store =
               db\<lparr>rows := rows db @ [\<lparr>m_id = nextId db, m_role = ''user'',
                                      m_content = req_content sreq, m_createdAt = t1\<rparr>,
                                    \<lparr>m_id = nextId db + 1, m_role = ''assistant'',
                                      m_content = [], m_createdAt = t2\<rparr>],
                  nextId := nextId db + 2\<rparr>,
             outcome_calls =
               [(map_of SYSTEM_PROMPTS (in_character inp),
                 map (\<lambda>m. (m_role m, m_content m))
                   (rev (selectRecent 10
                           (snd (insertMessage t1 ''user'' (req_content sreq) db)))))]\<rparr>)
   \<and> (chat_schema creq = Inr msg
      \<and> agent (map (\<lambda>m. (if m_role m = ''user'' then ''user'' else ''assistant'',
                            m_content m))
                  (rev (selectRecent 10 (snd (insertMessage t1 ''user'' msg db))))
                @ [(''user'', msg)])
          = Inr msgs
      \<and> aiResponse msgs = []
     \<longrightarrow> chat agent isoNow t1 t2 creq db
          = \<lparr>outcome_result =
               Inr \<lparr>userMessage = \<lparr>m_id = nextId db, m_role = ''user'',
                                    m_content = msg, m_createdAt = t1\<rparr>,
                    assistantMessage = \<lparr>m_id = nextId db + 1, m_role = ''assistant'',
                                         m_content = [], m_createdAt = t2\<rparr>,
                    toolCalls = (if issuedToolCalls msgs = [] then None
                                 else Some (extractToolCalls isoNow msgs))\<rparr>,
             outcome_store =
               db\<lparr>rows := rows db @ [\<lparr>m_id = nextId db, m_role = ''user'',
                                      m_content = msg, m_createdAt = t1\<rparr>,
                                    \<lparr>m_id = nextId db + 1, m_role = ''assistant'',
                                      m_content = [], m_createdAt = t2\<rparr>],
                  nextId := nextId db + 2\<rparr>,
             outcome_calls =
               [map (\<lambda>m. (if m_role m = ''user'' then ''user'' else ''assistant'',
                            m_content m))
                  (rev (selectRecent 10 (snd (insertMessage t1 ''user'' msg db))))
                @ [(''user'', msg)]]\<rparr>)
   \<and> aiResponse [] = []
   \<and> aiResponse (ms @ [\<lparr>am_content = StringContent [], am_tool_calls = tcs\<rparr>]) = []
   \<and> aiResponse (ms @ [\<lparr>am_content = ArrayContent [], am_tool_calls = tcs\<rparr>]) = []
   \<and> aiResponse (ms @ [\<lparr>am_content = OtherContent, am_tool_calls = tcs\<rparr>]) = []"
proof -
  have a: "aiResponse [] = []"
    "aiResponse (ms @ [\<lparr>am_content = StringContent [], am_tool_calls = tcs\<rparr>]) = []"
    "aiResponse (ms @ [\<lparr>am_content = ArrayContent [], am_tool_calls = tcs\<rparr>]) = []"
    "aiResponse (ms @ [\<lparr>am_content = OtherContent, am_tool_calls = tcs\<rparr>]) = []"
    by (simp_all add: aiResponse_def)
  have c: "chat agent isoNow t1 t2 creq db
          = \<lparr>outcome_result =
               Inr \<lparr>userMessage = \<lparr>m_id = nextId db, m_role = ''user'',
                                    m_content = msg, m_createdAt = t1\<rparr>,
                    assistantMessage = \<lparr>m_id = nextId db + 1, m_role = ''assistant'',
                                         m_content = [], m_createdAt = t2\<rparr>,
                    toolCalls = (if issuedToolCalls msgs = [] then None
                                 else Some (extractToolCalls isoNow msgs))\<rparr>,
             outcome_store =
               db\<lparr>rows := rows db @ [\<lparr>m_id = nextId db, m_role = ''user'',
                                      m_content = msg, m_createdAt = t1\<rparr>,
                                    \<lparr>m_id = nextId db + 1, m_role = ''assistant'',
                                      m_content = [], m_createdAt = t2\<rparr>],
                  nextId := nextId db + 2\<rparr>,
             outcome_calls =
               [map (\<lambda>m. (if m_role m = ''user'' then ''user'' else ''assistant'',
                            m_content m))
                  (rev (selectRecent 10 (snd (insertMessage t1 ''user'' msg db))))
                @ [(''user'', msg)]]\<rparr>"
    if "chat_schema creq = Inr msg
      \<and> agent (map (\<lambda>m. (if m_role m = ''user'' then ''user'' else ''assistant'',
                            m_content m))
                  (rev (selectRecent 10 (snd (insertMessage t1 ''user'' msg db))))
                @ [(''user'', msg)])
          = Inr msgs
      \<and> aiResponse msgs = []"
    using that chat_returns [of creq msg agent t1 db msgs isoNow t2] by simp
  show ?thesis
    using sendChat_returns [of sreq inp gen t1 db "[]" t2] c a
    by (intro conjI impI) blast+
qed

theorem empty_text_is_persisted_witness:
  "sendChat (\<lambda>_ _. Inr []) 40 41 \<lparr>req_content = ''Ping'', req_character = None\<rparr> sample_store
     = \<lparr>outcome_result =
          Inr \<lparr>userMessage = \<lparr>m_id = 4, m_role = ''user'', m_content = ''Ping'',
                               m_createdAt = 40\<rparr>,
               assistantMessage = \<lparr>m_id = 5, m_role = ''assistant'', m_content = [],
                                    m_createdAt = 41\<rparr>\<rparr>,
        outcome_store =
          \<lparr>rows = rows sample_store
                   @ [\<lparr>m_id = 4, m_role = ''user'', m_content = ''Ping'', m_createdAt = 40\<rparr>,
                      \<lparr>m_id = 5, m_role = ''assistant'', m_content = [], m_createdAt = 41\<rparr>],
           nextId = 6\<rparr>,
        outcome_calls =
          [(Some default_prompt,
            [(''user'', ''Hello''), (''assistant'', ''Hi there''), (''user'', ''Bye''),
             (''user'', ''Ping'')])]\<rparr>
   \<and> chat (\<lambda>_. Inr []) (\<lambda>_. ''t'') 40 41 \<lparr>req_message = ''Ping''\<rparr> sample_store
     = \<lparr>outcome_result =
          Inr \<lparr>userMessage = \<lparr>m_id = 4, m_role = ''user'', m_content = ''Ping'',
                               m_createdAt = 40\<rparr>,
               assistantMessage = \<lparr>m_id = 5, m_role = ''assistant'', m_content = [],
                                    m_createdAt = 41\<rparr>,
               toolCalls = None\<rparr>,
        outcome_store =
          \<lparr>rows = rows sample_store
                   @ [\<lparr>m_id = 4, m_role = ''user'', m_content = ''Ping'', m_createdAt = 40\<rparr>,
                      \<lparr>m_id = 5, m_role = ''assistant'', m_content = [], m_createdAt = 41\<rparr>],
           nextId = 6\<rparr>,
        outcome_calls =
          [[(''user'', ''Hello''), (''assistant'', ''Hi there''), (''user'', ''Bye''),
            (''user'', ''Ping''), (''user'', ''Ping'')]]\<rparr>"
proof -
  let ?gen = "\<lambda>(_::string option) (_::model_message list). (Inr [] :: error + string)"
  let ?agent = "\<lambda>(_::model_message list). (Inr [] :: error + agent_message list)"
  let ?sreq = "\<lparr>req_content = ''Ping'', req_character = None\<rparr>"
  let ?creq = "\<lparr>req_message = ''Ping''\<rparr>"
  let ?inp = "\<lparr>in_content = ''Ping'', in_character = ''default''\<rparr>"
  let ?u = "\<lparr>m_id = 4, m_role = ''user'', m_content = ''Ping'', m_createdAt = 40\<rparr>"
  let ?a = "\<lparr>m_id = 5, m_role = ''assistant'', m_content = [], m_createdAt = 41\<rparr>"
  note inst = empty_text_is_persisted
    [of ?sreq ?inp ?gen 40 sample_store 41 ?creq "''Ping''" ?agent "[]" "\<lambda>_. ''t''"]
  have s: "sendChat_schema ?sreq = Inr ?inp"
    by (simp add: sendChat_schema_def)
  have c: "chat_schema ?creq = Inr ''Ping''"
    by (simp add: chat_schema_def)
  have n: "nextId sample_store = 4"
    by (simp add: sample_store_def)
  have upd: "sample_store\<lparr>rows := rows sample_store @ [?u, ?a], nextId := 6\<rparr>
               = \<lparr>rows = rows sample_store @ [?u, ?a], nextId = 6\<rparr>"
    by simp
  have w: "rev (selectRecent 10 (snd (insertMessage 40 ''user'' ''Ping'' sample_store)))
             = rows sample_store @ [?u]"
    by (simp add: selectRecent_def insertMessage_def Let_def sample_store_def)
  have p: "map_of SYSTEM_PROMPTS ''default'' = Some default_prompt"
    by (simp add: SYSTEM_PROMPTS_def)
  have i: "issuedToolCalls [] = []" "aiResponse [] = []"
    by (simp_all add: issuedToolCalls_def aiResponse_def)
  have r1: "sendChat ?gen 40 41 ?sreq sample_store
     = \<lparr>outcome_result = Inr \<lparr>userMessage = ?u, assistantMessage = ?a\<rparr>,
        outcome_store = \<lparr>rows = rows sample_store @ [?u, ?a], nextId = 6\<rparr>,
        outcome_calls =
          [(Some default_prompt,
            map (\<lambda>m. (m_role m, m_content m)) (rows sample_store @ [?u]))]\<rparr>"
    using inst s by (simp add: n w p upd)
  have r2: "chat ?agent (\<lambda>_. ''t'') 40 41 ?creq sample_store
     = \<lparr>outcome_result = Inr \<lparr>userMessage = ?u, assistantMessage = ?a, toolCalls = None\<rparr>,
        outcome_store = \<lparr>rows = rows sample_store @ [?u, ?a], nextId = 6\<rparr>,
        outcome_calls =
          [map (\<lambda>m. (if m_role m = ''user'' then ''user'' else ''assistant'', m_content m))
             (rows sample_store @ [?u]) @ [(''user'', ''Ping'')]]\<rparr>"
    using inst c by (simp add: n w i upd)
  have e1: "map (\<lambda>m. (m_role m, m_content m)) (rows sample_store @ [?u])
              = [(''user'', ''Hello''), (''assistant'', ''Hi there''), (''user'', ''Bye''),
                 (''user'', ''Ping'')]"
    by (simp add: sample_store_def)
  have e2: "map (\<lambda>m. (if m_role m = ''user'' then ''user'' else ''assistant'', m_content m))
               (rows sample_store @ [?u]) @ [(''user'', ''Ping'')]
              = [(''user'', ''Hello''), (''assistant'', ''Hi there''), (''user'', ''Bye''),
                 (''user'', ''Ping''), (''user'', ''Ping'')]"
    by (simp add: sample_store_def)
  show ?thesis
    using r1 r2 by (simp only: e1 e2 simp_thms)
qed

section \<open>The trace of tool calls\<close>

lemma issuedToolCalls_nonempty_iff:
  "issuedToolCalls msgs \<noteq> []
     \<longleftrightarrow> (\<exists>m\<in>set msgs. \<exists>tcs. am_tool_calls m = Some tcs \<and> tcs \<noteq> [])"
  by (auto simp: issuedToolCalls_def split: option.splits)

lemma extractToolCalls_nth:
  assumes "i < length (issuedToolCalls msgs)"
  shows "extractToolCalls isoNow msgs ! i
           = \<lparr>tc_toolName =
                (case raw_name (issuedToolCalls msgs ! i) of
                   None \<Rightarrow> ''unknown''
                 | Some n \<Rightarrow> if n = [] then ''unknown'' else n),
              tc_input = raw_args (issuedToolCalls msgs ! i),
              tc_output = JObj [],
              tc_timestamp = isoNow i,
              tc_success = True\<rparr>"
  using assms by (simp add: extractToolCalls_def toolCallEntryOf_def nth_enumerate_eq)

text \<open>
  C6. When the agent returns, \<^verbatim>\<open>toolCalls\<close> is present in the response exactly when the
  result messages carry at least one tool call. It then has one entry for each call, in
  order, with the name of the call (\<^verbatim>\<open>unknown\<close> for a missing or empty name), its
  arguments as \<^verbatim>\<open>input\<close>, the time of its recording and \<^verbatim>\<open>success\<close> set; the \<^verbatim>\<open>output\<close>
  of every entry is the empty object, whatever the tool returned.
\<close>

theorem toolCalls_present_iff_issued:
  assumes called: "outcome_calls (chat agent isoNow t1 t2 req db) = [c]"
    and returned: "agent c = Inr msgs"
  shows "\<exists>r. outcome_result (chat agent isoNow t1 t2 req db) = Inr r
     \<and> (toolCalls r \<noteq> None \<longleftrightarrow> issuedToolCalls msgs \<noteq> [])
     \<and> (issuedToolCalls msgs \<noteq> []
          \<longleftrightarrow> (\<exists>m\<in>set msgs. \<exists>tcs. am_tool_calls m = Some tcs \<and> tcs \<noteq> []))
     \<and> (\<forall>es. toolCalls r = Some es \<longrightarrow>
           length es = length (issuedToolCalls msgs)
         \<and> (\<forall>i<length es.
               tc_toolName (es ! i)
                 = (case raw_name (issuedToolCalls msgs ! i) of
                      None \<Rightarrow> ''unknown''
                    | Some n \<Rightarrow> if n = [] then ''unknown'' else n)
             \<and> tc_input (es ! i) = raw_args (issuedToolCalls msgs ! i)
             \<and> tc_output (es ! i) = JObj []
             \<and> tc_timestamp (es ! i) = isoNow i
             \<and> tc_success (es ! i)))"
proof -
  let ?r = "\<lparr>userMessage = \<lparr>m_id = nextId db, m_role = ''user'',
                              m_content = req_message req, m_createdAt = t1\<rparr>,
              assistantMessage = \<lparr>m_id = nextId db + 1, m_role = ''assistant'',
                                   m_content = aiResponse msgs, m_createdAt = t2\<rparr>,
              toolCalls = (if issuedToolCalls msgs = [] then None
                           else Some (extractToolCalls isoNow msgs))\<rparr>"
  have res: "outcome_result (chat agent isoNow t1 t2 req db) = Inr ?r"
    using chat_success [OF called returned] by simp
  have present: "toolCalls ?r \<noteq> None \<longleftrightarrow> issuedToolCalls msgs \<noteq> []"
    by simp
  have entries: "length es = length (issuedToolCalls msgs)
         \<and> (\<forall>i<length es.
               tc_toolName (es ! i)
                 = (case raw_name (issuedToolCalls msgs ! i) of
                      None \<Rightarrow> ''unknown''
                    | Some n \<Rightarrow> if n = [] then ''unknown'' else n)
             \<and> tc_input (es ! i) = raw_args (issuedToolCalls msgs ! i)
             \<and> tc_output (es ! i) = JObj []
             \<and> tc_timestamp (es ! i) = isoNow i
             \<and> tc_success (es ! i))" if "toolCalls ?r = Some es" for es
  proof -
    from that have es: "es = extractToolCalls isoNow msgs"
      by (simp split: if_splits)
    show ?thesis
      unfolding es by (simp add: length_extractToolCalls extractToolCalls_nth)
  qed
  show ?thesis
    using res present entries issuedToolCalls_nonempty_iff [of msgs] by blast
qed

theorem toolCalls_present_iff_issued_witness:
  "(\<exists>r es. outcome_result
        (chat (\<lambda>_. Inr [\<lparr>am_content = StringContent [],
                            am_tool_calls =
                              Some [\<lparr>raw_name = Some ''count_users'', raw_args = JObj []\<rparr>,
                                    \<lparr>raw_name = None, raw_args = JUndefined\<rparr>]\<rparr>,
                          \<lparr>am_content = StringContent ''Total users in database: 0'',
                            am_tool_calls = None\<rparr>,
                          \<lparr>am_content = StringContent ''There are no users yet.'',
                            am_tool_calls = Some []\<rparr>])
           (\<lambda>k. ''t'') 40 41 \<lparr>req_message = ''How many users?''\<rparr> sample_store) = Inr r
      \<and> toolCalls r = Some es
      \<and> length es = 2
      \<and> tc_toolName (es ! 0) = ''count_users''
      \<and> tc_output (es ! 0) = JObj []
      \<and> tc_toolName (es ! 1) = ''unknown''
      \<and> tc_output (es ! 1) = JObj [])"
proof -
  let ?msgs = "[\<lparr>am_content = StringContent [],
                  am_tool_calls =
                    Some [\<lparr>raw_name = Some ''count_users'', raw_args = JObj []\<rparr>,
                          \<lparr>raw_name = None, raw_args = JUndefined\<rparr>]\<rparr>,
                \<lparr>am_content = StringContent ''Total users in database: 0'',
                  am_tool_calls = None\<rparr>,
                \<lparr>am_content = StringContent ''There are no users yet.'',
                  am_tool_calls = Some []\<rparr>]"
  let ?agent = "\<lambda>(_::model_message list). (Inr ?msgs :: error + agent_message list)"
  let ?iso = "\<lambda>(k::nat). ''t''"
  let ?req = "\<lparr>req_message = ''How many users?''\<rparr>"
  obtain c where c: "outcome_calls (chat ?agent ?iso 40 41 ?req sample_store) = [c]"
    by (simp add: chat_def chat_schema_def insertMessage_def Let_def)
  have issued: "issuedToolCalls ?msgs
                  = [\<lparr>raw_name = Some ''count_users'', raw_args = JObj []\<rparr>,
                     \<lparr>raw_name = None, raw_args = JUndefined\<rparr>]"
    by (simp add: issuedToolCalls_def)
  obtain r where r: "outcome_result (chat ?agent ?iso 40 41 ?req sample_store) = Inr r"
    and present: "toolCalls r \<noteq> None \<longleftrightarrow> issuedToolCalls ?msgs \<noteq> []"
    and entries: "\<forall>es. toolCalls r = Some es \<longrightarrow>
           length es = length (issuedToolCalls ?msgs)
         \<and> (\<forall>i<length es.
               tc_toolName (es ! i)
                 = (case raw_name (issuedToolCalls ?msgs ! i) of
                      None \<Rightarrow> ''unknown''
                    | Some n \<Rightarrow> if n = [] then ''unknown'' else n)
             \<and> tc_input (es ! i) = raw_args (issuedToolCalls ?msgs ! i)
             \<and> tc_output (es ! i) = JObj []
             \<and> tc_timestamp (es ! i) = ?iso i
             \<and> tc_success (es ! i))"
    using toolCalls_present_iff_issued [of ?agent ?iso 40 41 ?req sample_store c ?msgs] c
    by auto
  from present issued obtain es where es: "toolCalls r = Some es"
    by auto
  with entries issued have len: "length es = 2"
    and at: "\<forall>i<length es.
               tc_toolName (es ! i)
                 = (case raw_name (issuedToolCalls ?msgs ! i) of
                      None \<Rightarrow> ''unknown''
                    | Some n \<Rightarrow> if n = [] then ''unknown'' else n)
             \<and> tc_output (es ! i) = JObj []"
    by auto
  have "tc_toolName (es ! 0) = ''count_users''" "tc_output (es ! 0) = JObj []"
    "tc_toolName (es ! 1) = ''unknown''" "tc_output (es ! 1) = JObj []"
    using at len issued by simp_all
  with r es len show ?thesis by blast
qed

section \<open>The context window\<close>

lemma recent_window: "chronologicalWindow n (rows d) (rev (selectRecent n d))"
proof -
  let ?S = "sort_key (\<lambda>m. - m_createdAt m) (rows d)"
  let ?w = "rev (selectRecent n d)"
  have w: "?w = rev (take n ?S)" by (simp add: selectRecent_def)
  have len: "length ?w = min n (length (rows d))"
    by (simp add: selectRecent_def min.commute)
  have "sorted_wrt (\<lambda>a b. m_createdAt a \<le> m_createdAt b) ?w"
    using selectRecent_sorted [of n d] by (simp add: sorted_wrt_rev)
  then have srt: "sorted (map m_createdAt ?w)"
    by (simp add: sorted_map)
  have split: "mset (rows d) = mset (take n ?S) + mset (drop n ?S)"
    by (metis append_take_drop_id mset_append mset_sort)
  have sub: "mset ?w \<subseteq># mset (rows d)"
    unfolding w split by simp
  have rest: "mset (rows d) - mset ?w = mset (drop n ?S)"
    unfolding w split by simp
  have "sorted (map (\<lambda>m. - m_createdAt m) ?S)" by (rule sorted_sort_key)
  then have "sorted_wrt (\<lambda>a b. m_createdAt b \<le> m_createdAt a) (take n ?S @ drop n ?S)"
    by (simp add: sorted_map)
  then have "\<forall>x\<in>set (take n ?S). \<forall>y\<in>set (drop n ?S). m_createdAt y \<le> m_createdAt x"
    unfolding sorted_wrt_append by blast
  then have recent: "\<forall>x\<in>set ?w. \<forall>y\<in>#(mset (rows d) - mset ?w). m_createdAt y \<le> m_createdAt x"
    unfolding rest by (simp add: w)
  show ?thesis
    unfolding chronologicalWindow_def using len srt sub recent by blast
qed

lemma sendChat_call:
  assumes "sendChat_schema req = Inr inp"
  shows "outcome_calls (sendChat gen t1 t2 req db)
           = [(map_of SYSTEM_PROMPTS (in_character inp),
               map (\<lambda>m. (m_role m, m_content m))
                 (rev (selectRecent 10 (snd (insertMessage t1 ''user'' (req_content req) db)))))]"
  using assms sendChat_schema_content [OF assms]
  by (auto simp: sendChat_def Let_def split: sum.splits prod.splits)

lemma chat_call:
  assumes "chat_schema req = Inr msg"
  shows "outcome_calls (chat agent isoNow t1 t2 req db)
           = [map (\<lambda>m. (if m_role m = ''user'' then ''user'' else ''assistant'', m_content m))
                (rev (selectRecent 10 (snd (insertMessage t1 ''user'' msg db))))
              @ [(''user'', msg)]]"
  using assms by (auto simp: chat_def Let_def split: sum.splits prod.splits)

lemma chat_executor_call:
  assumes "chat_schema req = Inr msg"
  shows "outcome_calls (chat_executor (Inr executor) t1 t2 req db)
           = [\<lparr>ex_input = msg,
               ex_chat_history =
                 map (\<lambda>m. if m_role m = ''user'' then (''human'', m_content m)
                          else (''ai'', m_content m))
                   (rev (selectRecent 10 (snd (insertMessage t1 ''user'' msg db))))\<rparr>]"
  using assms by (auto simp: chat_executor_def Let_def split: sum.splits prod.splits)

text \<open>
  C2. In every accepted invocation of \<^verbatim>\<open>sendChat\<close>, and of \<^verbatim>\<open>chat\<close> in \<^verbatim>\<open>router/agent.ts\<close>
  once the executor is built, the messages handed to the model are the rows \<open>w\<close> that
  come from taking the first 10 rows of the table in most-recent-first order, the user
  turn just inserted included, and reversing them. \<open>w\<close> has 10 rows, or all the rows of
  the table when there are fewer, whatever the contents of the rows and however many are
  stored; it is in chronological order; no row left out is more recent than a row of it.
\<close>

theorem context_window_is_ten_most_recent:
  "(sendChat_schema sreq = Inr inp \<longrightarrow>
      (\<exists>sys w. outcome_calls (sendChat gen t1 t2 sreq db)
                  = [(sys, map (\<lambda>m. (m_role m, m_content m)) w)]
         \<and> w = rev (selectRecent 10 (snd (insertMessage t1 ''user'' (req_content sreq) db)))
         \<and> length w \<le> 10
         \<and> length w = min 10 (Suc (length (rows db)))
         \<and> chronologicalWindow 10
              (rows (snd (insertMessage t1 ''user'' (req_content sreq) db))) w))
   \<and> (chat_schema creq = Inr msg \<longrightarrow>
      (\<exists>w. outcome_calls (chat_executor (Inr executor) t1 t2 creq db)
               = [\<lparr>ex_input = msg,
                   ex_chat_history =
                     map (\<lambda>m. if m_role m = ''user'' then (''human'', m_content m)
                              else (''ai'', m_content m)) w\<rparr>]
         \<and> w = rev (selectRecent 10 (snd (insertMessage t1 ''user'' msg db)))
         \<and> length w \<le> 10
         \<and> length w = min 10 (Suc (length (rows db)))
         \<and> chronologicalWindow 10 (rows (snd (insertMessage t1 ''user'' msg db))) w))"
proof -
  have len: "length (rev (selectRecent 10 (snd (insertMessage t1 ''user'' x db))))
               = min 10 (Suc (length (rows db)))" for x
    using recent_window [of 10 "snd (insertMessage t1 ''user'' x db)"]
    by (simp add: chronologicalWindow_def rows_after_insert)
  show ?thesis
    using sendChat_call [of sreq inp gen t1 t2 db]
      chat_executor_call [of creq msg executor t1 t2 db]
      recent_window [of 10 "snd (insertMessage t1 ''user'' (req_content sreq) db)"]
      recent_window [of 10 "snd (insertMessage t1 ''user'' msg db)"]
      len [of "req_content sreq"] len [of msg]
    by simp
qed

theorem context_window_is_ten_most_recent_witness:
  "outcome_calls
     (sendChat (\<lambda>_ _. Inr ''ok'') 112 113 \<lparr>req_content = ''q12'', req_character = None\<rparr>
        long_store)
     = [(Some default_prompt,
         [(''user'', ''q3''), (''assistant'', ''a4''), (''user'', ''q5''), (''assistant'', ''a6''),
          (''user'', ''q7''), (''assistant'', ''a8''), (''user'', ''q9''), (''assistant'', ''a10''),
          (''user'', ''q11''), (''user'', ''q12'')])]
   \<and> outcome_calls
     (chat_executor (Inr (\<lambda>_. Inl UpstreamGenerationError)) 112 113 \<lparr>req_message = ''q12''\<rparr>
        long_store)
     = [\<lparr>ex_input = ''q12'',
         ex_chat_history =
           [(''human'', ''q3''), (''ai'', ''a4''), (''human'', ''q5''), (''ai'', ''a6''),
            (''human'', ''q7''), (''ai'', ''a8''), (''human'', ''q9''), (''ai'', ''a10''),
            (''human'', ''q11''), (''human'', ''q12'')]\<rparr>]"
proof -
  let ?gen = "\<lambda>(_::string option) (_::model_message list). (Inr ''ok'' :: error + string)"
  let ?ex = "\<lambda>(_::executor_input). (Inl UpstreamGenerationError :: error + executor_result)"
  let ?sreq = "\<lparr>req_content = ''q12'', req_character = None\<rparr>"
  let ?creq = "\<lparr>req_message = ''q12''\<rparr>"
  have s: "sendChat_schema ?sreq = Inr \<lparr>in_content = ''q12'', in_character = ''default''\<rparr>"
    by (simp add: sendChat_schema_def)
  have c: "chat_schema ?creq = Inr ''q12''"
    by (simp add: chat_schema_def)
  have w: "rev (selectRecent 10 (snd (insertMessage 112 ''user'' ''q12'' long_store)))
             = drop 2 (rows long_store)
               @ [\<lparr>m_id = 12, m_role = ''user'', m_content = ''q12'', m_createdAt = 112\<rparr>]"
    by (simp add: selectRecent_def insertMessage_def Let_def long_store_def)
  have p: "map_of SYSTEM_PROMPTS ''default'' = Some default_prompt"
    by (simp add: SYSTEM_PROMPTS_def)
  obtain sys w1 where
    "outcome_calls (sendChat ?gen 112 113 ?sreq long_store)
       = [(sys, map (\<lambda>m. (m_role m, m_content m)) w1)]"
    "w1 = rev (selectRecent 10 (snd (insertMessage 112 ''user'' ''q12'' long_store)))"
    using context_window_is_ten_most_recent
      [of ?sreq "\<lparr>in_content = ''q12'', in_character = ''default''\<rparr>" ?gen 112 113 long_store
          ?creq "''q12''" ?ex] s
    by auto
  moreover obtain w2 where
    "outcome_calls (chat_executor (Inr ?ex) 112 113 ?creq long_store)
       = [\<lparr>ex_input = ''q12'',
           ex_chat_history =
             map (\<lambda>m. if m_role m = ''user'' then (''human'', m_content m)
                      else (''ai'', m_content m)) w2\<rparr>]"
    "w2 = rev (selectRecent 10 (snd (insertMessage 112 ''user'' ''q12'' long_store)))"
    using context_window_is_ten_most_recent
      [of ?sreq "\<lparr>in_content = ''q12'', in_character = ''default''\<rparr>" ?gen 112 113 long_store
          ?creq "''q12''" ?ex] c
    by auto
  moreover have "sys = Some default_prompt"
    using calculation(1) sendChat_call [OF s, of ?gen 112 113 long_store] p by simp
  ultimately have
    "outcome_calls (sendChat ?gen 112 113 ?sreq long_store)
       = [(Some default_prompt,
           map (\<lambda>m. (m_role m, m_content m))
             (drop 2 (rows long_store)
              @ [\<lparr>m_id = 12, m_role = ''user'', m_content = ''q12'', m_createdAt = 112\<rparr>]))]
     \<and> outcome_calls (chat_executor (Inr ?ex) 112 113 ?creq long_store)
       = [\<lparr>ex_input = ''q12'',
           ex_chat_history =
             map (\<lambda>m. if m_role m = ''user'' then (''human'', m_content m)
                      else (''ai'', m_content m))
               (drop 2 (rows long_store)
                @ [\<lparr>m_id = 12, m_role = ''user'', m_content = ''q12'',
                     m_createdAt = 112\<rparr>])\<rparr>]"
    by (simp only: w)
  then show ?thesis
    by (simp add: long_store_def)
qed

section \<open>The current message in the agent's input\<close>

lemma selectRecent_after_insert_newest:
  assumes "\<forall>m\<in>set (rows db). m_createdAt m < t"
  shows "selectRecent 10 (snd (insertMessage t r c db))
           = \<lparr>m_id = nextId db, m_role = r, m_content = c, m_createdAt = t\<rparr>
             # selectRecent 9 db"
proof -
  have "take 10 (x # xs) = x # take 9 xs" for x :: Message and xs
    by (simp add: take_Cons')
  then show ?thesis
    using assms
    by (simp add: selectRecent_def insertMessage_def Let_def sort_key_desc_snoc)
qed

lemma user_turn_in_history:
  assumes "u \<in> set h" and "m_role u = ''user''"
  shows "(''user'', m_content u)
           \<in> set (map (\<lambda>m. (if m_role m = ''user'' then ''user'' else ''assistant'', m_content m))
                    (rev h))"
    and "(''human'', m_content u)
           \<in> set (map (\<lambda>m. if m_role m = ''user'' then (''human'', m_content m)
                           else (''ai'', m_content m)) (rev h))"
proof -
  show "(''user'', m_content u)
           \<in> set (map (\<lambda>m. (if m_role m = ''user'' then ''user'' else ''assistant'', m_content m))
                    (rev h))"
    using assms by (force simp: image_iff)
  show "(''human'', m_content u)
           \<in> set (map (\<lambda>m. if m_role m = ''user'' then (''human'', m_content m)
                           else (''ai'', m_content m)) (rev h))"
    using assms by (force simp: image_iff)
qed

lemma chat_history_parts:
  fixes db tm msg
  defines "u \<equiv> fst (insertMessage tm ''user'' msg db)"
    and "h \<equiv> selectRecent 10 (snd (insertMessage tm ''user'' msg db))"
  shows "u \<in> set h \<Longrightarrow>
           (''user'', msg)
             \<in> set (map (\<lambda>m. (if m_role m = ''user'' then ''user'' else ''assistant'',
                               m_content m)) (rev h))"
    and "u \<in> set h \<Longrightarrow>
           (''human'', msg)
             \<in> set (map (\<lambda>m. if m_role m = ''user'' then (''human'', m_content m)
                             else (''ai'', m_content m)) (rev h))"
    and "\<forall>m\<in>set (rows db). m_createdAt m < tm \<Longrightarrow> u \<in> set h"
    and "\<forall>m\<in>set (rows db). m_createdAt m < tm \<Longrightarrow>
           map (\<lambda>m. (if m_role m = ''user'' then ''user'' else ''assistant'', m_content m))
             (rev h)
           = map (\<lambda>m. (if m_role m = ''user'' then ''user'' else ''assistant'', m_content m))
               (rev (selectRecent 9 db)) @ [(''user'', msg)]"
    and "\<forall>m\<in>set (rows db). m_createdAt m < tm \<Longrightarrow>
           map (\<lambda>m. if m_role m = ''user'' then (''human'', m_content m)
                    else (''ai'', m_content m)) (rev h)
           = map (\<lambda>m. if m_role m = ''user'' then (''human'', m_content m)
                      else (''ai'', m_content m)) (rev (selectRecent 9 db)) @ [(''human'', msg)]"
proof -
  have u: "u = \<lparr>m_id = nextId db, m_role = ''user'', m_content = msg, m_createdAt = tm\<rparr>"
    by (simp add: u_def insertMessage_def Let_def)
  then have ru: "m_role u = ''user''" and cu: "m_content u = msg"
    by simp_all
  show "u \<in> set h \<Longrightarrow>
           (''user'', msg)
             \<in> set (map (\<lambda>m. (if m_role m = ''user'' then ''user'' else ''assistant'',
                               m_content m)) (rev h))"
    using user_turn_in_history(1) [of u h] ru cu by simp
  show "u \<in> set h \<Longrightarrow>
           (''human'', msg)
             \<in> set (map (\<lambda>m. if m_role m = ''user'' then (''human'', m_content m)
                             else (''ai'', m_content m)) (rev h))"
    using user_turn_in_history(2) [of u h] ru cu by simp
  assume newest: "\<forall>m\<in>set (rows db). m_createdAt m < tm"
  have h: "h = u # selectRecent 9 db"
    unfolding h_def u using selectRecent_after_insert_newest [OF newest] .
  show "u \<in> set h" by (simp add: h)
  show "map (\<lambda>m. (if m_role m = ''user'' then ''user'' else ''assistant'', m_content m))
             (rev h)
           = map (\<lambda>m. (if m_role m = ''user'' then ''user'' else ''assistant'', m_content m))
               (rev (selectRecent 9 db)) @ [(''user'', msg)]"
    by (simp add: h ru cu)
  show "map (\<lambda>m. if m_role m = ''user'' then (''human'', m_content m)
                    else (''ai'', m_content m)) (rev h)
           = map (\<lambda>m. if m_role m = ''user'' then (''human'', m_content m)
                      else (''ai'', m_content m)) (rev (selectRecent 9 db)) @ [(''human'', msg)]"
    by (simp add: h ru cu)
qed

text \<open>
  C7, as amended. In agent mode the sequence sent to the agent is the history followed by
  the current message, appended as the final user input. Whenever the row just inserted is
  among the 10 most recent rows, the current message is also one of the history entries,
  so the sequence contains it twice. It is the last history entry when its \<^verbatim>\<open>createdAt\<close>
  is later than that of every row stored before; then the sequence ends with the current
  message twice in a row. Both versions of the agent router behave so; in the one built on
  the executor the history is \<^verbatim>\<open>chat_history\<close> and the appended message is \<^verbatim>\<open>input\<close>.
\<close>

theorem current_message_sent_twice:
  assumes valid: "chat_schema req = Inr msg"
  shows
   "(\<exists>hist. outcome_calls (chat agent isoNow t1 t2 req db) = [hist @ [(''user'', msg)]]
       \<and> length hist = length (selectRecent 10 (snd (insertMessage t1 ''user'' msg db)))
       \<and> (fst (insertMessage t1 ''user'' msg db)
             \<in> set (selectRecent 10 (snd (insertMessage t1 ''user'' msg db)))
           \<longrightarrow> (''user'', msg) \<in> set hist)
       \<and> ((\<forall>m\<in>set (rows db). m_createdAt m < t1)
           \<longrightarrow> fst (insertMessage t1 ''user'' msg db)
                 \<in> set (selectRecent 10 (snd (insertMessage t1 ''user'' msg db)))
               \<and> (\<exists>older. hist = older @ [(''user'', msg)])))
    \<and> (\<exists>hist. outcome_calls (chat_executor (Inr executor) t1 t2 req db)
                 = [\<lparr>ex_input = msg, ex_chat_history = hist\<rparr>]
       \<and> promptMessages systemText \<lparr>ex_input = msg, ex_chat_history = hist\<rparr>
           = (''system'', systemText) # hist @ [(''human'', msg)]
       \<and> length hist = length (selectRecent 10 (snd (insertMessage t1 ''user'' msg db)))
       \<and> (fst (insertMessage t1 ''user'' msg db)
             \<in> set (selectRecent 10 (snd (insertMessage t1 ''user'' msg db)))
           \<longrightarrow> (''human'', msg) \<in> set hist)
       \<and> ((\<forall>m\<in>set (rows db). m_createdAt m < t1)
           \<longrightarrow> (\<exists>older. hist = older @ [(''human'', msg)])))"
proof -
  define u where "u = fst (insertMessage t1 ''user'' msg db)"
  define h where "h = selectRecent 10 (snd (insertMessage t1 ''user'' msg db))"
  define hf where
    "hf = map (\<lambda>m. (if m_role m = ''user'' then ''user'' else ''assistant'', m_content m)) (rev h)"
  define hg where
    "hg = map (\<lambda>m. if m_role m = ''user'' then (''human'', m_content m)
                   else (''ai'', m_content m)) (rev h)"
  have p1: "u \<in> set h \<Longrightarrow> (''user'', msg) \<in> set hf"
    unfolding u_def h_def hf_def by (rule chat_history_parts(1))
  have p2: "u \<in> set h \<Longrightarrow> (''human'', msg) \<in> set hg"
    unfolding u_def h_def hg_def by (rule chat_history_parts(2))
  have p3: "\<forall>m\<in>set (rows db). m_createdAt m < t1 \<Longrightarrow> u \<in> set h"
    unfolding u_def h_def by (rule chat_history_parts(3))
  have p4: "\<forall>m\<in>set (rows db). m_createdAt m < t1 \<Longrightarrow>
              \<exists>older. hf = older @ [(''user'', msg)]"
    unfolding h_def hf_def
    using chat_history_parts(4) [where db = db and tm = t1 and msg = msg] by blast
  have p5: "\<forall>m\<in>set (rows db). m_createdAt m < t1 \<Longrightarrow>
              \<exists>older. hg = older @ [(''human'', msg)]"
    unfolding h_def hg_def
    using chat_history_parts(5) [where db = db and tm = t1 and msg = msg] by blast
  have c1: "outcome_calls (chat agent isoNow t1 t2 req db) = [hf @ [(''user'', msg)]]"
    unfolding hf_def h_def by (rule chat_call [OF valid])
  have c2: "outcome_calls (chat_executor (Inr executor) t1 t2 req db)
              = [\<lparr>ex_input = msg, ex_chat_history = hg\<rparr>]"
    unfolding hg_def h_def by (rule chat_executor_call [OF valid])
  have lf: "length hf = length h" and lg: "length hg = length h"
    by (simp_all add: hf_def hg_def)
  have pm: "promptMessages systemText \<lparr>ex_input = msg, ex_chat_history = hg\<rparr>
              = (''system'', systemText) # hg @ [(''human'', msg)]"
    by (simp add: promptMessages_def)
  have a: "outcome_calls (chat agent isoNow t1 t2 req db) = [hf @ [(''user'', msg)]]
       \<and> length hf = length h
       \<and> (u \<in> set h \<longrightarrow> (''user'', msg) \<in> set hf)
       \<and> ((\<forall>m\<in>set (rows db). m_createdAt m < t1)
           \<longrightarrow> u \<in> set h \<and> (\<exists>older. hf = older @ [(''user'', msg)]))"
    using c1 lf p1 p3 p4 by (intro conjI impI)
  have b: "outcome_calls (chat_executor (Inr executor) t1 t2 req db)
                 = [\<lparr>ex_input = msg, ex_chat_history = hg\<rparr>]
       \<and> promptMessages systemText \<lparr>ex_input = msg, ex_chat_history = hg\<rparr>
           = (''system'', systemText) # hg @ [(''human'', msg)]
       \<and> length hg = length h
       \<and> (u \<in> set h \<longrightarrow> (''human'', msg) \<in> set hg)
       \<and> ((\<forall>m\<in>set (rows db). m_createdAt m < t1)
           \<longrightarrow> (\<exists>older. hg = older @ [(''human'', msg)]))"
    using c2 pm lg p2 p5 by (intro conjI impI)
  have a': "\<exists>hist. outcome_calls (chat agent isoNow t1 t2 req db) = [hist @ [(''user'', msg)]]
       \<and> length hist = length h
       \<and> (u \<in> set h \<longrightarrow> (''user'', msg) \<in> set hist)
       \<and> ((\<forall>m\<in>set (rows db). m_createdAt m < t1)
           \<longrightarrow> u \<in> set h \<and> (\<exists>older. hist = older @ [(''user'', msg)]))"
    by (rule exI [where x = hf]) (rule a)
  have b': "\<exists>hist. outcome_calls (chat_executor (Inr executor) t1 t2 req db)
                 = [\<lparr>ex_input = msg, ex_chat_history = hist\<rparr>]
       \<and> promptMessages systemText \<lparr>ex_input = msg, ex_chat_history = hist\<rparr>
           = (''system'', systemText) # hist @ [(''human'', msg)]
       \<and> length hist = length h
       \<and> (u \<in> set h \<longrightarrow> (''human'', msg) \<in> set hist)
       \<and> ((\<forall>m\<in>set (rows db). m_createdAt m < t1)
           \<longrightarrow> (\<exists>older. hist = older @ [(''human'', msg)]))"
    by (rule exI [where x = hg]) (rule b)
  from a' b' show ?thesis
    unfolding u_def h_def by (rule conjI)
qed

theorem current_message_sent_twice_witness:
  "chat_schema \<lparr>req_message = ''Ping''\<rparr> = Inr ''Ping''
   \<and> map m_createdAt (rows sample_store) = [10, 20, 30]
   \<and> (\<exists>older. outcome_calls
          (chat (\<lambda>_. Inr []) (\<lambda>_. ''t'') 40 41 \<lparr>req_message = ''Ping''\<rparr> sample_store)
          = [older @ [(''user'', ''Ping''), (''user'', ''Ping'')]])
   \<and> (\<exists>older. outcome_calls
          (chat_executor (Inr (\<lambda>_. Inl UpstreamGenerationError)) 40 41
             \<lparr>req_message = ''Ping''\<rparr> sample_store)
          = [\<lparr>ex_input = ''Ping'', ex_chat_history = older @ [(''human'', ''Ping'')]\<rparr>])"
proof -
  let ?agent = "\<lambda>(_::model_message list). (Inr [] :: error + agent_message list)"
  let ?ex = "\<lambda>(_::executor_input). (Inl UpstreamGenerationError :: error + executor_result)"
  let ?req = "\<lparr>req_message = ''Ping''\<rparr>"
  have v: "chat_schema ?req = Inr ''Ping''"
    by (simp add: chat_schema_def)
  have ts: "map m_createdAt (rows sample_store) = [10, 20, 30]"
    by (simp add: sample_store_def)
  then have newest: "\<forall>m\<in>set (rows sample_store). m_createdAt m < 40"
    by (simp add: sample_store_def)
  note inst = current_message_sent_twice [OF v, of ?agent "\<lambda>_. ''t''" 40 41 sample_store ?ex]
  from inst obtain hist where
    h1: "outcome_calls (chat ?agent (\<lambda>_. ''t'') 40 41 ?req sample_store)
           = [hist @ [(''user'', ''Ping'')]]"
    and h2: "(\<forall>m\<in>set (rows sample_store). m_createdAt m < 40)
               \<longrightarrow> fst (insertMessage 40 ''user'' ''Ping'' sample_store)
                     \<in> set (selectRecent 10 (snd (insertMessage 40 ''user'' ''Ping'' sample_store)))
                   \<and> (\<exists>older. hist = older @ [(''user'', ''Ping'')])"
    by blast
  from h2 newest obtain older where "hist = older @ [(''user'', ''Ping'')]"
    by blast
  with h1 have a: "\<exists>older. outcome_calls (chat ?agent (\<lambda>_. ''t'') 40 41 ?req sample_store)
                     = [older @ [(''user'', ''Ping''), (''user'', ''Ping'')]]"
    by simp
  from inst obtain hist' where
    g1: "outcome_calls (chat_executor (Inr ?ex) 40 41 ?req sample_store)
           = [\<lparr>ex_input = ''Ping'', ex_chat_history = hist'\<rparr>]"
    and g2: "(\<forall>m\<in>set (rows sample_store). m_createdAt m < 40)
               \<longrightarrow> (\<exists>older. hist' = older @ [(''human'', ''Ping'')])"
    by blast
  from g2 newest obtain older' where "hist' = older' @ [(''human'', ''Ping'')]"
    by blast
  with g1 have b: "\<exists>older. outcome_calls (chat_executor (Inr ?ex) 40 41 ?req sample_store)
                     = [\<lparr>ex_input = ''Ping'',
                         ex_chat_history = older @ [(''human'', ''Ping'')]\<rparr>]"
    by simp
  from v ts a b show ?thesis by (intro conjI)
qed

text \<open>
  C7 as stated places the first occurrence at the end of the history. That fails when
  the row just inserted is among the 10 most recent rows without being the first row of
  the descending query, as when a stored row bears the same \<^verbatim>\<open>createdAt\<close>: here the
  history ends with the stored message \<^verbatim>\<open>Bye\<close>, and the current message stands before it.
\<close>

theorem current_message_not_last_in_history_on_tie:
  "chat_schema \<lparr>req_message = ''Ping''\<rparr> = Inr ''Ping''
   \<and> fst (insertMessage 30 ''user'' ''Ping'' sample_store)
       \<in> set (selectRecent 10 (snd (insertMessage 30 ''user'' ''Ping'' sample_store)))
   \<and> outcome_calls
        (chat (\<lambda>_. Inr []) (\<lambda>_. ''t'') 30 31 \<lparr>req_message = ''Ping''\<rparr> sample_store)
       = [[(''user'', ''Hello''), (''assistant'', ''Hi there''), (''user'', ''Ping''),
           (''user'', ''Bye''), (''user'', ''Ping'')]]
   \<and> last (butlast (hd (outcome_calls
        (chat (\<lambda>_. Inr []) (\<lambda>_. ''t'') 30 31 \<lparr>req_message = ''Ping''\<rparr> sample_store))))
       \<noteq> (''user'', ''Ping'')"
  by (simp add: chat_def chat_schema_def insertMessage_def selectRecent_def Let_def
      sample_store_def)

section \<open>Validation of the input\<close>

lemma sendChat_rejected:
  assumes "sendChat_schema req = Inl e"
  shows "sendChat gen t1 t2 req db
           = \<lparr>outcome_result = Inl e, outcome_store = db, outcome_calls = []\<rparr>"
  using assms by (simp add: sendChat_def)

lemma chat_rejected:
  assumes "chat_schema req = Inl e"
  shows "chat agent isoNow t1 t2 req db
           = \<lparr>outcome_result = Inl e, outcome_store = db, outcome_calls = []\<rparr>"
    and "chat_executor build t1 t2 req db
           = \<lparr>outcome_result = Inl e, outcome_store = db, outcome_calls = []\<rparr>"
  using assms by (simp_all add: chat_def chat_executor_def)

lemma sendChat_persists_user_turn:
  assumes "sendChat_schema req = Inr inp"
  shows "take (Suc (length (rows db))) (rows (outcome_store (sendChat gen t1 t2 req db)))
           = rows db @ [\<lparr>m_id = nextId db, m_role = ''user'',
                          m_content = req_content req, m_createdAt = t1\<rparr>]"
  using assms sendChat_schema_content [OF assms]
  by (auto simp: sendChat_def insertMessage_def Let_def split: sum.splits prod.splits)

lemma chat_persists_user_turn:
  assumes "chat_schema req = Inr msg"
  shows "take (Suc (length (rows db))) (rows (outcome_store (chat agent isoNow t1 t2 req db)))
           = rows db @ [\<lparr>m_id = nextId db, m_role = ''user'',
                          m_content = msg, m_createdAt = t1\<rparr>]"
    and "take (Suc (length (rows db)))
           (rows (outcome_store (chat_executor (Inr executor) t1 t2 req db)))
           = rows db @ [\<lparr>m_id = nextId db, m_role = ''user'',
                          m_content = msg, m_createdAt = t1\<rparr>]"
  using assms
  by (auto simp: chat_def chat_executor_def insertMessage_def Let_def
      split: sum.splits prod.splits)

text \<open>
  C4. A content of length 0 or of more than 10000 characters makes \<^verbatim>\<open>sendChat\<close> and both
  versions of \<^verbatim>\<open>chat\<close> end with a validation error, the store untouched and the model not
  called. A content of 1 to 10000 characters, 10000 included, passes the schema (in
  \<^verbatim>\<open>sendChat\<close> when the character key, if given, is one of the four), and the user turn is
  then inserted after the rows of the store (in the executor version once the executor is
  built).
\<close>

theorem content_length_is_validated_first:
  "((length (req_content sreq) = 0 \<or> 10000 < length (req_content sreq)) \<longrightarrow>
      sendChat gen t1 t2 sreq db
        = \<lparr>outcome_result = Inl ValidationError, outcome_store = db, outcome_calls = []\<rparr>)
   \<and> ((length (req_message creq) = 0 \<or> 10000 < length (req_message creq)) \<longrightarrow>
      chat agent isoNow t1 t2 creq db
        = \<lparr>outcome_result = Inl ValidationError, outcome_store = db, outcome_calls = []\<rparr>
      \<and> chat_executor build t1 t2 creq db
        = \<lparr>outcome_result = Inl ValidationError, outcome_store = db, outcome_calls = []\<rparr>)
   \<and> (1 \<le> length (req_content sreq) \<and> length (req_content sreq) \<le> 10000
        \<and> (\<forall>k. req_character sreq = Some k
               \<longrightarrow> k \<in> {''default'', ''luffy'', ''ironman'', ''goku''}) \<longrightarrow>
      (\<exists>inp. sendChat_schema sreq = Inr inp \<and> in_content inp = req_content sreq)
      \<and> take (Suc (length (rows db))) (rows (outcome_store (sendChat gen t1 t2 sreq db)))
          = rows db @ [\<lparr>m_id = nextId db, m_role = ''user'',
                         m_content = req_content sreq, m_createdAt = t1\<rparr>])
   \<and> (1 \<le> length (req_message creq) \<and> length (req_message creq) \<le> 10000 \<longrightarrow>
      chat_schema creq = Inr (req_message creq)
      \<and> take (Suc (length (rows db))) (rows (outcome_store (chat agent isoNow t1 t2 creq db)))
          = rows db @ [\<lparr>m_id = nextId db, m_role = ''user'',
                         m_content = req_message creq, m_createdAt = t1\<rparr>]
      \<and> take (Suc (length (rows db)))
            (rows (outcome_store (chat_executor (Inr executor) t1 t2 creq db)))
          = rows db @ [\<lparr>m_id = nextId db, m_role = ''user'',
                         m_content = req_message creq, m_createdAt = t1\<rparr>])"
proof -
  have a: "sendChat_schema sreq = Inl ValidationError"
    if "length (req_content sreq) = 0 \<or> 10000 < length (req_content sreq)"
    using that by (auto simp: sendChat_schema_def)
  have b: "chat_schema creq = Inl ValidationError"
    if "length (req_message creq) = 0 \<or> 10000 < length (req_message creq)"
    using that by (auto simp: chat_schema_def)
  have c: "\<exists>inp. sendChat_schema sreq = Inr inp \<and> in_content inp = req_content sreq"
    if "1 \<le> length (req_content sreq) \<and> length (req_content sreq) \<le> 10000
        \<and> (\<forall>k. req_character sreq = Some k
               \<longrightarrow> k \<in> {''default'', ''luffy'', ''ironman'', ''goku''})"
    using that by (auto simp: sendChat_schema_def split: option.splits)
  have c': "take (Suc (length (rows db))) (rows (outcome_store (sendChat gen t1 t2 sreq db)))
          = rows db @ [\<lparr>m_id = nextId db, m_role = ''user'',
                         m_content = req_content sreq, m_createdAt = t1\<rparr>]"
    if "1 \<le> length (req_content sreq) \<and> length (req_content sreq) \<le> 10000
        \<and> (\<forall>k. req_character sreq = Some k
               \<longrightarrow> k \<in> {''default'', ''luffy'', ''ironman'', ''goku''})"
    using c [OF that] sendChat_persists_user_turn [of sreq _ db gen t1 t2] by blast
  have d: "chat_schema creq = Inr (req_message creq)"
    if "1 \<le> length (req_message creq) \<and> length (req_message creq) \<le> 10000"
    using that by (simp add: chat_schema_def)
  show ?thesis
    using a b c c' d sendChat_rejected [of sreq ValidationError gen t1 t2 db]
      chat_rejected [of creq ValidationError]
      chat_persists_user_turn [of creq "req_message creq" db]
    by (intro conjI impI) auto
qed

theorem content_length_is_validated_first_witness:
  "length (replicate 10001 (CHR ''a'')) = 10001
   \<and> sendChat (\<lambda>_ _. Inr ''ok'') 40 41
        \<lparr>req_content = replicate 10001 (CHR ''a''), req_character = None\<rparr> sample_store
       = \<lparr>outcome_result = Inl ValidationError, outcome_store = sample_store,
          outcome_calls = []\<rparr>
   \<and> chat (\<lambda>_. Inr []) (\<lambda>_. ''t'') 40 41 \<lparr>req_message = []\<rparr> sample_store
       = \<lparr>outcome_result = Inl ValidationError, outcome_store = sample_store,
          outcome_calls = []\<rparr>
   \<and> length (replicate 10000 (CHR ''a'')) = 10000
   \<and> sendChat_schema \<lparr>req_content = replicate 10000 (CHR ''a''), req_character = None\<rparr>
       = Inr \<lparr>in_content = replicate 10000 (CHR ''a''), in_character = ''default''\<rparr>
   \<and> last (rows (outcome_store
         (chat_executor (Inr (\<lambda>_. Inl UpstreamGenerationError)) 40 41
            \<lparr>req_message = replicate 10000 (CHR ''a'')\<rparr> sample_store)))
       = \<lparr>m_id = 4, m_role = ''user'', m_content = replicate 10000 (CHR ''a''),
          m_createdAt = 40\<rparr>"
proof -
  let ?gen = "\<lambda>(_::string option) (_::model_message list). (Inr ''ok'' :: error + string)"
  let ?agent = "\<lambda>(_::model_message list). (Inr [] :: error + agent_message list)"
  let ?ex = "\<lambda>(_::executor_input). (Inl UpstreamGenerationError :: error + executor_result)"
  let ?long = "replicate 10001 (CHR ''a'')" and ?max = "replicate 10000 (CHR ''a'')"
  note big = content_length_is_validated_first
    [of "\<lparr>req_content = ?long, req_character = None\<rparr>" ?gen 40 41 sample_store
        "\<lparr>req_message = []\<rparr>" ?agent "\<lambda>_. ''t''" "Inr ?ex" ?ex]
  note ok = content_length_is_validated_first
    [of "\<lparr>req_content = ?max, req_character = None\<rparr>" ?gen 40 41 sample_store
        "\<lparr>req_message = ?max\<rparr>" ?agent "\<lambda>_. ''t''" "Inr ?ex" ?ex]
  have r1: "sendChat ?gen 40 41 \<lparr>req_content = ?long, req_character = None\<rparr> sample_store
       = \<lparr>outcome_result = Inl ValidationError, outcome_store = sample_store,
          outcome_calls = []\<rparr>"
    using big by simp
  have r2: "chat ?agent (\<lambda>_. ''t'') 40 41 \<lparr>req_message = []\<rparr> sample_store
       = \<lparr>outcome_result = Inl ValidationError, outcome_store = sample_store,
          outcome_calls = []\<rparr>"
    using big by simp
  have r3: "sendChat_schema \<lparr>req_content = ?max, req_character = None\<rparr>
       = Inr \<lparr>in_content = ?max, in_character = ''default''\<rparr>"
    by (simp add: sendChat_schema_def)
  have "take (Suc (length (rows sample_store)))
          (rows (outcome_store (chat_executor (Inr ?ex) 40 41 \<lparr>req_message = ?max\<rparr>
             sample_store)))
          = rows sample_store @ [\<lparr>m_id = nextId sample_store, m_role = ''user'',
                                   m_content = ?max, m_createdAt = 40\<rparr>]"
    using ok by simp
  moreover have "rows (outcome_store (chat_executor (Inr ?ex) 40 41 \<lparr>req_message = ?max\<rparr>
             sample_store))
          = rows (snd (insertMessage 40 ''user'' ?max sample_store))"
    by (simp add: chat_executor_def chat_schema_def Let_def split: prod.splits)
  ultimately have r4: "last (rows (outcome_store
         (chat_executor (Inr ?ex) 40 41 \<lparr>req_message = ?max\<rparr> sample_store)))
       = \<lparr>m_id = 4, m_role = ''user'', m_content = ?max, m_createdAt = 40\<rparr>"
    by (simp add: rows_after_insert sample_store_def)
  show ?thesis
    using r1 r2 r3 r4 by simp
qed

lemma SYSTEM_PROMPTS_entries:
  "map_of SYSTEM_PROMPTS ''default'' = Some default_prompt"
  "map_of SYSTEM_PROMPTS ''luffy'' = Some luffy_prompt"
  "map_of SYSTEM_PROMPTS ''ironman'' = Some ironman_prompt"
  "map_of SYSTEM_PROMPTS ''goku'' = Some goku_prompt"
  by (simp_all add: SYSTEM_PROMPTS_def)

text \<open>
  C8. A \<^verbatim>\<open>character\<close> key outside \<^verbatim>\<open>default\<close>, \<^verbatim>\<open>luffy\<close>, \<^verbatim>\<open>ironman\<close>, \<^verbatim>\<open>goku\<close> makes
  \<^verbatim>\<open>sendChat\<close> end with a validation error, the store untouched and the model not called.
  With a valid content, an omitted key sends the default prompt as the system prompt, and
  an accepted key sends the entry of \<^verbatim>\<open>SYSTEM_PROMPTS\<close> for that key; the table has an
  entry for each of the four keys.
\<close>

theorem character_key_is_validated_first:
  "((\<exists>k. req_character sreq = Some k
          \<and> k \<notin> {''default'', ''luffy'', ''ironman'', ''goku''}) \<longrightarrow>
      sendChat gen t1 t2 sreq db
        = \<lparr>outcome_result = Inl ValidationError, outcome_store = db, outcome_calls = []\<rparr>)
   \<and> (1 \<le> length (req_content sreq) \<and> length (req_content sreq) \<le> 10000
        \<and> req_character sreq = None \<longrightarrow>
      (\<exists>msgs. outcome_calls (sendChat gen t1 t2 sreq db) = [(Some default_prompt, msgs)]))
   \<and> (\<forall>k. 1 \<le> length (req_content sreq) \<and> length (req_content sreq) \<le> 10000
        \<and> req_character sreq = Some k
        \<and> k \<in> {''default'', ''luffy'', ''ironman'', ''goku''} \<longrightarrow>
      (\<exists>msgs. outcome_calls (sendChat gen t1 t2 sreq db) = [(map_of SYSTEM_PROMPTS k, msgs)]))
   \<and> map_of SYSTEM_PROMPTS ''default'' = Some default_prompt
   \<and> map_of SYSTEM_PROMPTS ''luffy'' = Some luffy_prompt
   \<and> map_of SYSTEM_PROMPTS ''ironman'' = Some ironman_prompt
   \<and> map_of SYSTEM_PROMPTS ''goku'' = Some goku_prompt"
proof -
  have a: "sendChat_schema sreq = Inl ValidationError"
    if "\<exists>k. req_character sreq = Some k \<and> k \<notin> {''default'', ''luffy'', ''ironman'', ''goku''}"
    using that by (auto simp: sendChat_schema_def)
  have b: "sendChat_schema sreq
             = Inr \<lparr>in_content = req_content sreq, in_character = ''default''\<rparr>"
    if "1 \<le> length (req_content sreq) \<and> length (req_content sreq) \<le> 10000
        \<and> req_character sreq = None"
    using that by (simp add: sendChat_schema_def)
  have c: "sendChat_schema sreq = Inr \<lparr>in_content = req_content sreq, in_character = k\<rparr>"
    if "1 \<le> length (req_content sreq) \<and> length (req_content sreq) \<le> 10000
        \<and> req_character sreq = Some k
        \<and> k \<in> {''default'', ''luffy'', ''ironman'', ''goku''}" for k
    using that by (auto simp: sendChat_schema_def)
  have r: "sendChat gen t1 t2 sreq db
        = \<lparr>outcome_result = Inl ValidationError, outcome_store = db, outcome_calls = []\<rparr>"
    if "\<exists>k. req_character sreq = Some k \<and> k \<notin> {''default'', ''luffy'', ''ironman'', ''goku''}"
    using sendChat_rejected [OF a [OF that]] .
  have d: "\<exists>msgs. outcome_calls (sendChat gen t1 t2 sreq db) = [(Some default_prompt, msgs)]"
    if "1 \<le> length (req_content sreq) \<and> length (req_content sreq) \<le> 10000
        \<and> req_character sreq = None"
    using sendChat_call [OF b [OF that], of gen t1 t2 db]
    by (simp add: SYSTEM_PROMPTS_entries)
  have e: "\<exists>msgs. outcome_calls (sendChat gen t1 t2 sreq db) = [(map_of SYSTEM_PROMPTS k, msgs)]"
    if "1 \<le> length (req_content sreq) \<and> length (req_content sreq) \<le> 10000
        \<and> req_character sreq = Some k
        \<and> k \<in> {''default'', ''luffy'', ''ironman'', ''goku''}" for k
    using sendChat_call [OF c [OF that], of gen t1 t2 db] by simp
  show ?thesis
    using r d e SYSTEM_PROMPTS_entries by (intro conjI impI allI) blast+
qed

theorem character_key_is_validated_first_witness:
  "sendChat (\<lambda>_ _. Inr ''ok'') 40 41
      \<lparr>req_content = ''Hello'', req_character = Some ''naruto''\<rparr> sample_store
     = \<lparr>outcome_result = Inl ValidationError, outcome_store = sample_store,
        outcome_calls = []\<rparr>
   \<and> (\<exists>msgs. outcome_calls
         (sendChat (\<lambda>_ _. Inr ''ok'') 40 41
            \<lparr>req_content = ''Hello'', req_character = None\<rparr> sample_store)
         = [(Some default_prompt, msgs)])
   \<and> (\<exists>msgs. outcome_calls
         (sendChat (\<lambda>_ _. Inr ''ok'') 40 41
            \<lparr>req_content = ''Hello'', req_character = Some ''goku''\<rparr> sample_store)
         = [(Some goku_prompt, msgs)])"
proof -
  let ?gen = "\<lambda>(_::string option) (_::model_message list). (Inr ''ok'' :: error + string)"
  have a: "sendChat ?gen 40 41
      \<lparr>req_content = ''Hello'', req_character = Some ''naruto''\<rparr> sample_store
     = \<lparr>outcome_result = Inl ValidationError, outcome_store = sample_store,
        outcome_calls = []\<rparr>"
    using character_key_is_validated_first
      [of "\<lparr>req_content = ''Hello'', req_character = Some ''naruto''\<rparr>" ?gen 40 41 sample_store]
    by simp
  have b: "\<exists>msgs. outcome_calls
         (sendChat ?gen 40 41 \<lparr>req_content = ''Hello'', req_character = None\<rparr> sample_store)
         = [(Some default_prompt, msgs)]"
    using character_key_is_validated_first
      [of "\<lparr>req_content = ''Hello'', req_character = None\<rparr>" ?gen 40 41 sample_store]
    by simp
  have "\<forall>k. 1 \<le> length ''Hello'' \<and> length ''Hello'' \<le> 10000
             \<and> Some ''goku'' = Some k \<and> k \<in> {''default'', ''luffy'', ''ironman'', ''goku''}
          \<longrightarrow> (\<exists>msgs. outcome_calls
                 (sendChat ?gen 40 41 \<lparr>req_content = ''Hello'', req_character = Some ''goku''\<rparr>
                    sample_store)
                 = [(map_of SYSTEM_PROMPTS k, msgs)])"
    using character_key_is_validated_first
      [of "\<lparr>req_content = ''Hello'', req_character = Some ''goku''\<rparr>" ?gen 40 41 sample_store]
    by (simp only: sendChat_request.simps) blast
  then have "\<exists>msgs. outcome_calls
         (sendChat ?gen 40 41 \<lparr>req_content = ''Hello'', req_character = Some ''goku''\<rparr>
            sample_store)
         = [(map_of SYSTEM_PROMPTS ''goku'', msgs)]"
    by simp
  then have c: "\<exists>msgs. outcome_calls
         (sendChat ?gen 40 41 \<lparr>req_content = ''Hello'', req_character = Some ''goku''\<rparr>
            sample_store)
         = [(Some goku_prompt, msgs)]"
    by (simp only: SYSTEM_PROMPTS_entries)
  from a b c show ?thesis by (intro conjI)
qed

section \<open>Tools that find nothing\<close>

lemma find_None_no_user:
  "(\<forall>u\<in>set us. u_id u \<noteq> i) \<Longrightarrow> find (\<lambda>u. u_id u = i) us = None"
  by (simp add: find_None_iff)

text \<open>
  With a validated id that fits the four-byte id columns, the reading tools return a
  sentence, and throw nothing, when there is nothing to report: \<^verbatim>\<open>list_users\<close> and
  \<^verbatim>\<open>list_posts\<close> on an empty table, \<^verbatim>\<open>get_user\<close> for an id that no user has,
  \<^verbatim>\<open>get_posts_by_user\<close> for a user id that no post carries.
\<close>

lemma tools_report_nothing_found_within_int4:
  "(userRows es = [] \<longrightarrow>
      listUsersTool stringify es = Inr ''No users found in the database.'')
   \<and> (postRows es = [] \<longrightarrow>
      listPostsTool stringify es = Inr ''No posts found in the database.'')
   \<and> (validId i \<and> i \<le> int4Max \<and> (\<forall>u\<in>set (userRows es). u_id u \<noteq> i) \<longrightarrow>
      getUserTool stringify i es
        = Inr (''User with ID '' @ numberToString i @ '' not found''))
   \<and> (validId i \<and> i \<le> int4Max \<and> (\<forall>p\<in>set (postRows es). p_userId p \<noteq> i) \<longrightarrow>
      getPostsByUserTool stringify i es
        = Inr (''User '' @ numberToString i @ '' has not created any posts yet.''))"
proof -
  have a: "listUsersTool stringify es = Inr ''No users found in the database.''"
    if "userRows es = []"
    using that by (simp add: listUsersTool_def user_list_def)
  have b: "listPostsTool stringify es = Inr ''No posts found in the database.''"
    if "postRows es = []"
    using that by (simp add: listPostsTool_def post_list_def)
  have c: "getUserTool stringify i es
             = Inr (''User with ID '' @ numberToString i @ '' not found'')"
    if "validId i \<and> i \<le> int4Max \<and> (\<forall>u\<in>set (userRows es). u_id u \<noteq> i)"
    using that find_None_no_user [of "userRows es" i]
    by (simp add: getUserTool_def user_getById_def)
  have "filter (\<lambda>p. p_userId p = i) (postRows es) = []"
    if "\<forall>p\<in>set (postRows es). p_userId p \<noteq> i"
    using that by (simp add: filter_empty_conv)
  then have d: "getPostsByUserTool stringify i es
             = Inr (''User '' @ numberToString i @ '' has not created any posts yet.'')"
    if "validId i \<and> i \<le> int4Max \<and> (\<forall>p\<in>set (postRows es). p_userId p \<noteq> i)"
    using that by (simp add: getPostsByUserTool_def post_listByUser_def)
  show ?thesis
    using a b c d by (intro conjI impI)
qed

lemma tools_report_nothing_found_examples:
  "listUsersTool (\<lambda>_. ''[]'') empty_entities = Inr ''No users found in the database.''
   \<and> listPostsTool (\<lambda>_. ''[]'') empty_entities = Inr ''No posts found in the database.''
   \<and> getUserTool (\<lambda>_. ''[]'') 2 ada_entities = Inr ''User with ID 2 not found''
   \<and> getPostsByUserTool (\<lambda>_. ''[]'') 2 ada_entities
       = Inr ''User 2 has not created any posts yet.''
   \<and> getUserTool (\<lambda>_. ''[]'') 2147483647 ada_entities
       = Inr ''User with ID 2147483647 not found''"
proof -
  have v: "validId 2" "2 \<le> int4Max" "validId 2147483647" "2147483647 \<le> int4Max"
    by (simp_all add: validId_def int4Max_def)
  have e: "userRows empty_entities = []" "postRows empty_entities = []"
    by (simp_all add: empty_entities_def)
  have m: "\<forall>u\<in>set (userRows ada_entities). u_id u \<noteq> 2"
    "\<forall>p\<in>set (postRows ada_entities). p_userId p \<noteq> 2"
    "\<forall>u\<in>set (userRows ada_entities). u_id u \<noteq> 2147483647"
    by (simp_all add: ada_entities_def)
  have n: "numberToString 2 = ''2''" "numberToString 2147483647 = ''2147483647''"
    by (simp_all add: numberToString_def decimal.simps)
  show ?thesis
    using tools_report_nothing_found_within_int4 [of empty_entities "\<lambda>_. ''[]''" 2]
      tools_report_nothing_found_within_int4 [of ada_entities "\<lambda>_. ''[]''" 2]
      tools_report_nothing_found_within_int4 [of ada_entities "\<lambda>_. ''[]''" 2147483647]
      v e m n
    by simp
qed

text \<open>
  C9. The claim fails for a validated id beyond the four-byte range. The schema of the
  tools and of the routers, \<^verbatim>\<open>z.number().int().positive()\<close>, admits 2147483648; no row
  carries that id, yet \<^verbatim>\<open>get_user\<close> and \<^verbatim>\<open>get_posts_by_user\<close> throw the error of the database
  where the claim has them return their sentence.
\<close>

theorem reading_tools_throw_beyond_int4:
  "validId 2147483648
   \<and> find (\<lambda>u. u_id u = 2147483648) (userRows ada_entities) = None
   \<and> filter (\<lambda>p. p_userId p = 2147483648) (postRows ada_entities) = []
   \<and> getUserTool (\<lambda>_. ''[]'') 2147483648 ada_entities = Inl StoreError
   \<and> getPostsByUserTool (\<lambda>_. ''[]'') 2147483648 ada_entities = Inl StoreError
   \<and> getUserTool (\<lambda>_. ''[]'') 2147483648 empty_entities = Inl StoreError
   \<and> getPostsByUserTool (\<lambda>_. ''[]'') 2147483648 empty_entities = Inl StoreError"
  by (simp add: validId_def int4Max_def getUserTool_def getPostsByUserTool_def
      user_getById_def post_listByUser_def ada_entities_def)

end
